theory Spec2Isabelle
  imports Complex_Main "HOL-Library.Log_Nat"
begin

section \<open>JavaScript values\<close>

text \<open>
  The node is one TypeScript method, \<open>HyperliquidHip3.execute\<close>. Its data are plain
  JavaScript values. A string is modelled by the bytes of its UTF-8 encoding, so every
  ASCII character is one \<open>char\<close>. A number is an IEEE-754 double: a finite double is the
  rational it denotes (negative zero is identified with zero: the program only
  multiplies and prints numbers, and both zeros print as \<open>0\<close>), and the three
  non-finite values are constructors of their own.
\<close>

datatype jsnum = Num rat | NaN | PosInfinity | NegInfinity

datatype jsval =
    JUndefined
  | JNull
  | JBool bool
  | JNum jsnum
  | JStr string
  | JArr "jsval list"
  | JObj "(string \<times> jsval) list"

text \<open>\<open>!x\<close> is true exactly on the falsy values: \<open>undefined\<close>, \<open>null\<close>, \<open>false\<close>,
  zero, \<open>NaN\<close> and the empty string.\<close>

fun truthy :: "jsval \<Rightarrow> bool" where
  "truthy JUndefined = False"
| "truthy JNull = False"
| "truthy (JBool b) = b"
| "truthy (JNum (Num r)) = (r \<noteq> 0)"
| "truthy (JNum NaN) = False"
| "truthy (JNum PosInfinity) = True"
| "truthy (JNum NegInfinity) = True"
| "truthy (JStr s) = (s \<noteq> [])"
| "truthy (JArr xs) = True"
| "truthy (JObj ps) = True"

text \<open>\<open>s.slice(a, b)\<close> for \<open>0 \<le> a \<le> b\<close>: the characters from index \<open>a\<close> up to, not
  including, index \<open>b\<close>, cut short at the end of the string.\<close>

definition slice :: "nat \<Rightarrow> nat \<Rightarrow> string \<Rightarrow> string" where
  "slice a b s = take (b - a) (drop a s)"

text \<open>Strings joined by commas, as \<open>Array.prototype.join\<close> and \<open>JSON.stringify\<close>
  do.\<close>

fun join :: "string list \<Rightarrow> string" where
  "join [] = []"
| "join [x] = x"
| "join (x # y # ys) = x @ '','' @ join (y # ys)"

text \<open>Whatever is thrown is a value: the node's own \<open>NodeOperationError\<close>, the
  \<open>TypeError\<close> of the engine (a property read on \<open>null\<close> or \<open>undefined\<close>, an object
  that has no string form), a rejected request and a rejected wallet construction, each
  with its \<open>message\<close>.\<close>

datatype error =
    NodeOperationError string
  | TypeError string
  | RequestError string
  | WalletError string

fun message :: "error \<Rightarrow> string" where
  "message (NodeOperationError m) = m"
| "message (TypeError m) = m"
| "message (RequestError m) = m"
| "message (WalletError m) = m"

subsection \<open>Doubles\<close>

definition pow2 :: "int \<Rightarrow> rat" where
  "pow2 e = (if 0 \<le> e then of_int (2 ^ nat e) else 1 / of_int (2 ^ nat (- e)))"

definition pow10 :: "int \<Rightarrow> rat" where
  "pow10 e = (if 0 \<le> e then of_int (10 ^ nat e) else 1 / of_int (10 ^ nat (- e)))"

text \<open>The nearest integer, a tie going to the even one.\<close>

definition round_half_even :: "rat \<Rightarrow> int" where
  "round_half_even x =
     (let f = \<lfloor>x\<rfloor>; d = x - of_int f in
      if d < 1 / 2 then f else if 1 / 2 < d then f + 1 else if even f then f else f + 1)"

text \<open>For \<open>a > 0\<close>, the \<open>e\<close> with \<open>2 ^ e \<le> a < 2 ^ (e + 1)\<close>: with \<open>a = p / q\<close> it is the
  difference of the bit lengths of \<open>p\<close> and \<open>q\<close>, or one less.\<close>

definition binary_exponent :: "rat \<Rightarrow> int" where
  "binary_exponent a =
     (case quotient_of a of
        (p, q) \<Rightarrow> let e = bitlen p - bitlen q in if pow2 e \<le> a then e else e - 1)"

text \<open>The double nearest to a rational, as IEEE 754 rounds to nearest with ties to
  even: the result is a multiple of the unit in the last place, which is
  \<open>2 ^ (e - 52)\<close> for a number of binary exponent \<open>e\<close> and never less than \<open>2 ^ - 1074\<close>,
  and it is infinite from \<open>2 ^ 1024\<close> on.\<close>

definition round_double :: "rat \<Rightarrow> jsnum" where
  "round_double r =
     (if r = 0 then Num 0
      else
        let a = \<bar>r\<bar>;
            u = max (binary_exponent a - 52) (- 1074);
            v = of_int (round_half_even (a / pow2 u)) * pow2 u
        in if pow2 1024 \<le> v then (if r < 0 then NegInfinity else PosInfinity)
           else Num (if r < 0 then - v else v))"

text \<open>The product of two doubles, \<open>x * y\<close>.\<close>

fun multiply :: "jsnum \<Rightarrow> jsnum \<Rightarrow> jsnum" where
  "multiply (Num a) (Num b) = round_double (a * b)"
| "multiply NaN y = NaN"
| "multiply x NaN = NaN"
| "multiply (Num a) PosInfinity = (if a = 0 then NaN else if 0 < a then PosInfinity else NegInfinity)"
| "multiply (Num a) NegInfinity = (if a = 0 then NaN else if 0 < a then NegInfinity else PosInfinity)"
| "multiply PosInfinity (Num b) = (if b = 0 then NaN else if 0 < b then PosInfinity else NegInfinity)"
| "multiply NegInfinity (Num b) = (if b = 0 then NaN else if 0 < b then NegInfinity else PosInfinity)"
| "multiply PosInfinity PosInfinity = PosInfinity"
| "multiply PosInfinity NegInfinity = NegInfinity"
| "multiply NegInfinity PosInfinity = NegInfinity"
| "multiply NegInfinity NegInfinity = PosInfinity"

subsection \<open>parseInt\<close>

text \<open>The white space and line terminators that \<open>parseInt\<close> skips, as UTF-8 byte
  sequences: TAB, LF, VT, FF, CR, SP, U+00A0, U+1680, U+2000 to U+200A, U+2028, U+2029,
  U+202F, U+205F, U+3000 and U+FEFF.\<close>

definition white_space :: "string list" where
  "white_space =
     [[CHR 0x09], [CHR 0x0A], [CHR 0x0B], [CHR 0x0C], [CHR 0x0D], [CHR 0x20],
      [CHR 0xC2, CHR 0xA0], [CHR 0xE1, CHR 0x9A, CHR 0x80],
      [CHR 0xE2, CHR 0x80, CHR 0x80], [CHR 0xE2, CHR 0x80, CHR 0x81],
      [CHR 0xE2, CHR 0x80, CHR 0x82], [CHR 0xE2, CHR 0x80, CHR 0x83],
      [CHR 0xE2, CHR 0x80, CHR 0x84], [CHR 0xE2, CHR 0x80, CHR 0x85],
      [CHR 0xE2, CHR 0x80, CHR 0x86], [CHR 0xE2, CHR 0x80, CHR 0x87],
      [CHR 0xE2, CHR 0x80, CHR 0x88], [CHR 0xE2, CHR 0x80, CHR 0x89],
      [CHR 0xE2, CHR 0x80, CHR 0x8A], [CHR 0xE2, CHR 0x80, CHR 0xA8],
      [CHR 0xE2, CHR 0x80, CHR 0xA9], [CHR 0xE2, CHR 0x80, CHR 0xAF],
      [CHR 0xE2, CHR 0x81, CHR 0x9F], [CHR 0xE3, CHR 0x80, CHR 0x80],
      [CHR 0xEF, CHR 0xBB, CHR 0xBF]]"

fun strip_prefix :: "string \<Rightarrow> string \<Rightarrow> string option" where
  "strip_prefix [] s = Some s"
| "strip_prefix (p # ps) [] = None"
| "strip_prefix (p # ps) (c # cs) = (if p = c then strip_prefix ps cs else None)"

fun first_stripped :: "string list \<Rightarrow> string \<Rightarrow> string option" where
  "first_stripped [] s = None"
| "first_stripped (p # ps) s =
     (case strip_prefix p s of Some rest \<Rightarrow> Some rest | None \<Rightarrow> first_stripped ps s)"

text \<open>Every entry of \<open>white_space\<close> is at least one byte long, so at most
  \<open>length s\<close> of them can be taken off the front of \<open>s\<close>: the fuel is never the reason
  to stop.\<close>

fun trim_fuel :: "nat \<Rightarrow> string \<Rightarrow> string" where
  "trim_fuel 0 s = s"
| "trim_fuel (Suc k) s =
     (case first_stripped white_space s of Some rest \<Rightarrow> trim_fuel k rest | None \<Rightarrow> s)"

definition trim_start :: "string \<Rightarrow> string" where
  "trim_start s = trim_fuel (length s) s"

text \<open>The value of a digit: \<open>0\<close> to \<open>9\<close>, then the letters in either case as 10 to 35.\<close>

definition digit_value :: "char \<Rightarrow> nat option" where
  "digit_value c =
     (let n = of_char c :: nat in
      if 48 \<le> n \<and> n \<le> 57 then Some (n - 48)
      else if 97 \<le> n \<and> n \<le> 122 then Some (n - 87)
      else if 65 \<le> n \<and> n \<le> 90 then Some (n - 55)
      else None)"

definition is_radix_digit :: "nat \<Rightarrow> char \<Rightarrow> bool" where
  "is_radix_digit R c = (case digit_value c of Some d \<Rightarrow> d < R | None \<Rightarrow> False)"

definition radix_value :: "nat \<Rightarrow> string \<Rightarrow> int" where
  "radix_value R z =
     foldl (\<lambda>acc c. acc * int R + (case digit_value c of Some d \<Rightarrow> int d | None \<Rightarrow> 0)) 0 z"

text \<open>\<open>parseInt(string, radix)\<close>, step by step as ECMA-262 gives it; radix \<open>0\<close> stands
  for a call without the second argument. The result is \<open>NaN\<close> when no digit is read.
  (For a decimal literal of more than 20 significant digits the standard lets an engine
  round before the conversion; here the conversion is the exact one.)\<close>

definition parseInt :: "string \<Rightarrow> nat \<Rightarrow> jsnum" where
  "parseInt inputString radix =
     (let S = trim_start inputString;
          negative = (S \<noteq> [] \<and> hd S = CHR ''-'');
          S1 = (if S \<noteq> [] \<and> (hd S = CHR ''+'' \<or> hd S = CHR ''-'') then tl S else S)
      in if radix \<noteq> 0 \<and> (radix < 2 \<or> 36 < radix) then NaN
         else
           let stripPrefix = (radix = 0 \<or> radix = 16);
               R0 = (if radix = 0 then 10 else radix);
               hex = (stripPrefix \<and> (take 2 S1 = ''0x'' \<or> take 2 S1 = ''0X''));
               S2 = (if hex then drop 2 S1 else S1);
               R = (if hex then 16 else R0);
               Z = takeWhile (is_radix_digit R) S2
           in if Z = [] then NaN
              else round_double (of_int ((if negative then - 1 else 1) * radix_value R Z)))"

subsection \<open>Number::toString\<close>

function digits_of :: "int \<Rightarrow> string" where
  "digits_of n =
     (if n < 10 then [char_of (48 + n)] else digits_of (n div 10) @ [char_of (48 + n mod 10)])"
  by pat_completeness auto
termination
  by (relation "measure nat") auto

text \<open>For \<open>x > 0\<close>, the \<open>n\<close> with \<open>10 ^ (n - 1) \<le> x < 10 ^ n\<close>, found from an estimate
  out of the binary exponent. The estimate is off by two at most for a double, so the
  fuel is never the reason to stop.\<close>

fun adjust_up :: "nat \<Rightarrow> rat \<Rightarrow> int \<Rightarrow> int" where
  "adjust_up 0 x n = n"
| "adjust_up (Suc fuel) x n = (if pow10 n \<le> x then adjust_up fuel x (n + 1) else n)"

fun adjust_down :: "nat \<Rightarrow> rat \<Rightarrow> int \<Rightarrow> int" where
  "adjust_down 0 x n = n"
| "adjust_down (Suc fuel) x n = (if x < pow10 (n - 1) then adjust_down fuel x (n - 1) else n)"

definition decimal_exponent :: "rat \<Rightarrow> int" where
  "decimal_exponent x =
     adjust_down 700 x (adjust_up 700 x (binary_exponent x * 30103 div 100000))"

text \<open>The digits of a double \<open>x > 0\<close>: integers \<open>s\<close>, \<open>k\<close> and \<open>n\<close> with \<open>s\<close> of \<open>k\<close>
  digits, \<open>s * 10 ^ (n - k)\<close> rounding to \<open>x\<close>, and \<open>k\<close> as small as possible. For each
  \<open>k\<close> in turn the two multiples of \<open>10 ^ (n - k)\<close> around \<open>x\<close> are tried; when both
  round to \<open>x\<close> the closer one is taken, the even one at a tie. Seventeen digits always
  identify a double.\<close>

fun shortest_digits :: "nat \<Rightarrow> rat \<Rightarrow> int \<Rightarrow> nat \<Rightarrow> int \<times> nat \<times> int" where
  "shortest_digits 0 x n k = (\<lfloor>x / pow10 (n - int k)\<rfloor>, k, n)"
| "shortest_digits (Suc fuel) x n k =
     (let scale = pow10 (n - int k);
          lo = \<lfloor>x / scale\<rfloor>;
          hi = lo + 1;
          ok_lo = (round_double (of_int lo * scale) = Num x);
          ok_hi = (round_double (of_int hi * scale) = Num x);
          d_lo = x - of_int lo * scale;
          d_hi = of_int hi * scale - x
      in if \<not> ok_lo \<and> \<not> ok_hi then shortest_digits fuel x n (Suc k)
         else if ok_hi \<and> (\<not> ok_lo \<or> d_hi < d_lo \<or> (d_hi = d_lo \<and> even hi))
         then (if hi = 10 ^ k then (1, 1, n + 1) else (hi, k, n))
         else (lo, k, n))"

text \<open>The \<open>k\<close> digits \<open>ds\<close> laid out for the decimal exponent \<open>n\<close>: plain up to 21
  integer digits and down to six zeros after the point, with an exponent otherwise.\<close>

definition format_digits :: "string \<Rightarrow> nat \<Rightarrow> int \<Rightarrow> string" where
  "format_digits ds k n =
     (if int k \<le> n \<and> n \<le> 21 then ds @ replicate (nat (n - int k)) (CHR ''0'')
      else if 0 < n \<and> n \<le> 21 then take (nat n) ds @ ''.'' @ drop (nat n) ds
      else if - 6 < n \<and> n \<le> 0 then ''0.'' @ replicate (nat (- n)) (CHR ''0'') @ ds
      else
        (if k = 1 then ds else [hd ds] @ ''.'' @ tl ds)
          @ ''e'' @ (if n - 1 < 0 then ''-'' else ''+'') @ digits_of \<bar>n - 1\<bar>)"

text \<open>\<open>String(x)\<close> for a number. An integer below \<open>2 ^ 53\<close> in magnitude is its own
  shortest decimal, so it prints as its digits.\<close>

definition number_to_string :: "jsnum \<Rightarrow> string" where
  "number_to_string x =
     (case x of
        NaN \<Rightarrow> ''NaN''
      | PosInfinity \<Rightarrow> ''Infinity''
      | NegInfinity \<Rightarrow> ''-Infinity''
      | Num r \<Rightarrow>
          if r = 0 then ''0''
          else
            (if r < 0 then ''-'' else []) @
            (if \<bar>r\<bar> = of_int \<lfloor>\<bar>r\<bar>\<rfloor> \<and> \<bar>r\<bar> < 2 ^ 53 then digits_of \<lfloor>\<bar>r\<bar>\<rfloor>
             else
               (case shortest_digits 17 \<bar>r\<bar> (decimal_exponent \<bar>r\<bar>) 1 of
                  (s, k, n) \<Rightarrow> format_digits (digits_of s) k n)))"

subsection \<open>parseFloat\<close>

text \<open>\<open>ToString\<close> of a value that \<open>JSON.parse\<close> can give. An array is its elements
  joined by commas, \<open>null\<close> and \<open>undefined\<close> elements counting as empty; an object is
  \<open>[object Object]\<close>, unless a property of its own hides the inherited \<open>toString\<close>:
  such a property is not a function, and the conversion throws.\<close>

fun to_string :: "jsval \<Rightarrow> error + string"
  and join_elements :: "jsval list \<Rightarrow> error + string list" where
  "to_string JUndefined = Inr ''undefined''"
| "to_string JNull = Inr ''null''"
| "to_string (JBool b) = Inr (if b then ''true'' else ''false'')"
| "to_string (JNum x) = Inr (number_to_string x)"
| "to_string (JStr s) = Inr s"
| "to_string (JArr xs) = (case join_elements xs of Inl e \<Rightarrow> Inl e | Inr ss \<Rightarrow> Inr (join ss))"
| "to_string (JObj ps) =
     (if map_of ps ''toString'' = None then Inr ''[object Object]''
      else Inl (TypeError ''Cannot convert object to primitive value''))"
| "join_elements [] = Inr []"
| "join_elements (x # xs) =
     (case (if x = JUndefined \<or> x = JNull then Inr [] else to_string x) of
        Inl e \<Rightarrow> Inl e
      | Inr s \<Rightarrow> (case join_elements xs of Inl e \<Rightarrow> Inl e | Inr ss \<Rightarrow> Inr (s # ss)))"

definition is_digit :: "char \<Rightarrow> bool" where
  "is_digit c = is_radix_digit 10 c"

text \<open>The value of an exponent part, \<open>e\<close> or \<open>E\<close>, an optional sign and digits, at the
  front of \<open>s\<close>; without digits there is no exponent part.\<close>

definition exponent_part :: "string \<Rightarrow> int" where
  "exponent_part s =
     (if s \<noteq> [] \<and> (hd s = CHR ''e'' \<or> hd s = CHR ''E'') then
        let s1 = tl s;
            negative = (s1 \<noteq> [] \<and> hd s1 = CHR ''-'');
            s2 = (if s1 \<noteq> [] \<and> (hd s1 = CHR ''+'' \<or> hd s1 = CHR ''-'') then tl s1 else s1);
            ds = takeWhile is_digit s2
        in if ds = [] then 0 else (if negative then - radix_value 10 ds else radix_value 10 ds)
      else 0)"

text \<open>\<open>parseFloat\<close> of a string: white space is skipped, then the longest prefix that is
  a decimal literal (a sign, then \<open>Infinity\<close> or digits with an optional point and an
  optional exponent part) is read, and its value is rounded to a double. The result is
  \<open>NaN\<close> when there is no such prefix.\<close>

definition parse_float :: "string \<Rightarrow> jsnum" where
  "parse_float inputString =
     (let S = trim_start inputString;
          negative = (S \<noteq> [] \<and> hd S = CHR ''-'');
          S1 = (if S \<noteq> [] \<and> (hd S = CHR ''+'' \<or> hd S = CHR ''-'') then tl S else S)
      in if take 8 S1 = ''Infinity'' then (if negative then NegInfinity else PosInfinity)
         else
           let int_digits = takeWhile is_digit S1;
               S2 = dropWhile is_digit S1;
               point = (S2 \<noteq> [] \<and> hd S2 = CHR ''.'');
               fraction_digits = (if point then takeWhile is_digit (tl S2) else []);
               S3 = (if point then dropWhile is_digit (tl S2) else S2)
           in if int_digits = [] \<and> fraction_digits = [] then NaN
              else round_double
                     ((if negative then - 1 else 1)
                      * of_int (radix_value 10 (int_digits @ fraction_digits))
                      * pow10 (exponent_part S3 - int (length fraction_digits))))"

definition parseFloat :: "jsval \<Rightarrow> error + jsnum" where
  "parseFloat v = (case to_string v of Inl e \<Rightarrow> Inl e | Inr s \<Rightarrow> Inr (parse_float s))"

subsection \<open>JSON.stringify\<close>

definition hex_digit :: "nat \<Rightarrow> char" where
  "hex_digit d = (if d < 10 then char_of (48 + d) else char_of (87 + d))"

text \<open>\<open>QuoteJSONString\<close> on a well-formed string: the quote, the backslash and the
  control characters are escaped, every other byte is copied.\<close>

definition quote_char :: "char \<Rightarrow> string" where
  "quote_char c =
     (let n = of_char c :: nat in
      if n = 8 then [CHR 0x5C, CHR ''b'']
      else if n = 9 then [CHR 0x5C, CHR ''t'']
      else if n = 10 then [CHR 0x5C, CHR ''n'']
      else if n = 12 then [CHR 0x5C, CHR ''f'']
      else if n = 13 then [CHR 0x5C, CHR ''r'']
      else if n = 34 then [CHR 0x5C, CHR 0x22]
      else if n = 92 then [CHR 0x5C, CHR 0x5C]
      else if n < 32 then [CHR 0x5C, CHR ''u'', CHR ''0'', CHR ''0'', hex_digit (n div 16), hex_digit (n mod 16)]
      else [c])"

definition quote :: "string \<Rightarrow> string" where
  "quote s = [CHR 0x22] @ concat (map quote_char s) @ [CHR 0x22]"

text \<open>\<open>SerializeJSONProperty\<close>: \<open>None\<close> is the result \<open>undefined\<close>. A property whose
  value is \<open>undefined\<close> is left out of an object and printed as \<open>null\<close> in an array; a
  number that is not finite prints as \<open>null\<close>. Properties keep their insertion order.\<close>

fun serialize :: "jsval \<Rightarrow> string option"
  and serialize_elements :: "jsval list \<Rightarrow> string list"
  and serialize_properties :: "(string \<times> jsval) list \<Rightarrow> string list"
where
  "serialize JUndefined = None"
| "serialize JNull = Some ''null''"
| "serialize (JBool b) = Some (if b then ''true'' else ''false'')"
| "serialize (JNum (Num r)) = Some (number_to_string (Num r))"
| "serialize (JNum NaN) = Some ''null''"
| "serialize (JNum PosInfinity) = Some ''null''"
| "serialize (JNum NegInfinity) = Some ''null''"
| "serialize (JStr s) = Some (quote s)"
| "serialize (JArr xs) = Some (''['' @ join (serialize_elements xs) @ '']'')"
| "serialize (JObj ps) = Some (''{'' @ join (serialize_properties ps) @ ''}'')"
| "serialize_elements [] = []"
| "serialize_elements (x # xs) =
     (case serialize x of Some s \<Rightarrow> s | None \<Rightarrow> ''null'') # serialize_elements xs"
| "serialize_properties [] = []"
| "serialize_properties ((k, v) # ps) =
     (case serialize v of
        Some s \<Rightarrow> (quote k @ '':'' @ s) # serialize_properties ps
      | None \<Rightarrow> serialize_properties ps)"

text \<open>\<open>JSON.stringify\<close> of an object literal, which always yields a string.\<close>

definition stringify_object :: "(string \<times> jsval) list \<Rightarrow> string" where
  "stringify_object ps = ''{'' @ join (serialize_properties ps) @ ''}''"

section \<open>The node and its collaborators\<close>

text \<open>The credential \<open>hyperliquidApi\<close>: four string fields, each with the default
  \<open>''\<close> (\<open>HyperliquidApi.credentials.ts\<close>).\<close>

record credentials =
  privateKey :: string
  walletAddress :: string
  network :: string
  vaultAddress :: string

text \<open>What \<open>getNodeParameter(name, i)\<close> returns for one input item. The parameter
  \<open>size\<close> is the field \<open>orderSize\<close> here.\<close>

record parameters =
  asset :: string
  side :: string
  orderSize :: string
  orderType :: string
  price :: string
  reduceOnly :: bool
  orderId :: string
  coin :: string
  userAddress :: string

text \<open>The options of one \<open>helpers.request\<close> call: \<open>http_method\<close> is the option
  \<open>method\<close>; every call of the node also sets \<open>json: true\<close>.\<close>

record http_request =
  http_method :: string
  url :: string
  body :: jsval

text \<open>One entry of \<open>returnData\<close>; \<open>pairedItem\<close> is \<open>{ item: i }\<close>.\<close>

record execution_data =
  json :: jsval
  pairedItem :: nat

text \<open>
  Everything outside the node is a field of the host. The world \<open>'w\<close> is whatever the
  network and the clock depend on.
  \<^item> \<open>helpers_request\<close>: \<open>this.helpers.request\<close>; \<open>Inl m\<close> is a rejection with message \<open>m\<close>.
  \<^item> \<open>Date_now\<close>: \<open>Date.now()\<close>, an integer number of milliseconds.
  \<^item> \<open>continueOnFail\<close>: \<open>this.continueOnFail()\<close>.
  \<^item> \<open>Wallet_address\<close>: the \<open>address\<close> of \<open>new ethers.Wallet(privateKey)\<close>, or the
    message of the error the constructor throws.
  \<^item> \<open>keccak256\<close>: \<open>ethers.utils.keccak256(ethers.utils.toUtf8Bytes(text))\<close>, a hex string.
  \<^item> \<open>signMessage\<close>: \<open>wallet.signMessage(ethers.utils.arrayify(hash))\<close> for the wallet
    of the given private key, a hex string.
\<close>

record 'w host =
  helpers_request :: "http_request \<Rightarrow> 'w \<Rightarrow> (string + jsval) \<times> 'w"
  Date_now :: "'w \<Rightarrow> int \<times> 'w"
  continueOnFail :: bool
  Wallet_address :: "string \<Rightarrow> string + string"
  keccak256 :: "string \<Rightarrow> string"
  signMessage :: "string \<Rightarrow> string \<Rightarrow> string"

text \<open>The state of a run: the world, and the requests handed to \<open>helpers.request\<close> so
  far, oldest first.\<close>

record 'w run_state =
  world :: 'w
  sent :: "http_request list"

definition request :: "'w host \<Rightarrow> http_request \<Rightarrow> 'w run_state \<Rightarrow> (error + jsval) \<times> 'w run_state" where
  "request h req st =
     (case helpers_request h req (world st) of
        (r, w') \<Rightarrow>
          ((case r of Inl m \<Rightarrow> Inl (RequestError m) | Inr v \<Rightarrow> Inr v),
           \<lparr>world = w', sent = sent st @ [req]\<rparr>))"

definition now :: "'w host \<Rightarrow> 'w run_state \<Rightarrow> int \<times> 'w run_state" where
  "now h st = (case Date_now h (world st) of (t, w') \<Rightarrow> (t, st\<lparr>world := w'\<rparr>))"

subsection \<open>Lines 253 to 259: endpoint and trading address\<close>

definition baseUrl :: "string \<Rightarrow> string" where
  "baseUrl net =
     (if net = ''testnet'' then ''https://api.hyperliquid-testnet.xyz''
      else ''https://api.hyperliquid.xyz'')"

text \<open>\<open>vaultAddress || credentials.walletAddress || wallet.address\<close>: of strings, only
  the empty one is falsy.\<close>

definition address :: "credentials \<Rightarrow> string \<Rightarrow> string" where
  "address c wallet_address =
     (if vaultAddress c \<noteq> [] then vaultAddress c
      else if walletAddress c \<noteq> [] then walletAddress c
      else wallet_address)"

subsection \<open>Lines 336 to 361, 377 to 402 and 416 to 441: sign and send\<close>

text \<open>The three signed operations end in the same 26 lines. \<open>vaultAddress || undefined\<close>
  appears in the signed message and in the request body.\<close>

definition vault_or_undefined :: "credentials \<Rightarrow> jsval" where
  "vault_or_undefined c = (if vaultAddress c \<noteq> [] then JStr (vaultAddress c) else JUndefined)"

definition signed_message :: "credentials \<Rightarrow> jsval \<Rightarrow> int \<Rightarrow> (string \<times> jsval) list" where
  "signed_message c action timestamp =
     [(''action'', action),
      (''nonce'', JNum (Num (of_int timestamp))),
      (''vaultAddress'', vault_or_undefined c)]"

definition split_signature :: "string \<Rightarrow> jsval" where
  "split_signature signature =
     JObj [(''r'', JStr (slice 0 66 signature)),
           (''s'', JStr (''0x'' @ slice 66 130 signature)),
           (''v'', JNum (parseInt (slice 130 132 signature) 16))]"

definition message_hash :: "'w host \<Rightarrow> credentials \<Rightarrow> jsval \<Rightarrow> int \<Rightarrow> string" where
  "message_hash h c action timestamp =
     (let message = signed_message c action timestamp
      in keccak256 h (stringify_object message))"

definition sign :: "'w host \<Rightarrow> credentials \<Rightarrow> jsval \<Rightarrow> int \<Rightarrow> string" where
  "sign h c action timestamp =
     (let hash = message_hash h c action timestamp
      in signMessage h (privateKey c) hash)"

definition exchange_body :: "credentials \<Rightarrow> jsval \<Rightarrow> int \<Rightarrow> string \<Rightarrow> jsval" where
  "exchange_body c action timestamp signature =
     JObj [(''action'', action),
           (''nonce'', JNum (Num (of_int timestamp))),
           (''signature'', split_signature signature),
           (''vaultAddress'', vault_or_undefined c)]"

definition sign_and_send ::
  "'w host \<Rightarrow> credentials \<Rightarrow> jsval \<Rightarrow> int \<Rightarrow> 'w run_state \<Rightarrow> (error + jsval) \<times> 'w run_state" where
  "sign_and_send h c action timestamp st =
     (let signature = sign h c action timestamp
      in request h \<lparr>http_method = ''POST'', url = baseUrl (network c) @ ''/exchange'',
                    body = exchange_body c action timestamp signature\<rparr> st)"

subsection \<open>Lines 265 to 361: placeOrder\<close>

text \<open>\<open>marketInfo[asset]\<close>. The read throws on \<open>null\<close> and \<open>undefined\<close> (the message
  is the one V8 gives). It is reached only for an \<open>asset\<close> that contains a colon, which
  is neither an array index nor the name of any inherited property, so on every other
  value it is the own property of that name, or \<open>undefined\<close>. The pairs of a \<open>JObj\<close>
  are the properties of the object, each name once.\<close>

definition get_property :: "jsval \<Rightarrow> string \<Rightarrow> error + jsval" where
  "get_property obj name =
     (case obj of
        JUndefined \<Rightarrow>
          Inl (TypeError (''Cannot read properties of undefined (reading '' @ [CHR 0x27] @ name @ [CHR 0x27] @ '')''))
      | JNull \<Rightarrow>
          Inl (TypeError (''Cannot read properties of null (reading '' @ [CHR 0x27] @ name @ [CHR 0x27] @ '')''))
      | JObj ps \<Rightarrow> Inr (case map_of ps name of Some v \<Rightarrow> v | None \<Rightarrow> JUndefined)
      | _ \<Rightarrow> Inr JUndefined)"

text \<open>The literals \<open>1.05\<close> and \<open>0.95\<close> are the doubles nearest to them.\<close>

definition literal_1_05 :: jsnum where
  "literal_1_05 = round_double (105 / 100)"

definition literal_0_95 :: jsnum where
  "literal_0_95 = round_double (95 / 100)"

text \<open>Lines 280 to 312: the limit price, a string. A limit order takes the parameter
  \<open>price\<close>; every other order type asks \<open>/info\<close> for all mid prices.\<close>

definition limitPx ::
  "'w host \<Rightarrow> credentials \<Rightarrow> parameters \<Rightarrow> 'w run_state \<Rightarrow> (error + string) \<times> 'w run_state" where
  "limitPx h c p st =
     (if orderType p = ''limit'' then
        (if price p = [] then (Inl (NodeOperationError ''Price is required for limit orders''), st)
         else (Inr (price p), st))
      else
        (case request h \<lparr>http_method = ''POST'', url = baseUrl (network c) @ ''/info'',
                         body = JObj [(''type'', JStr ''allMids'')]\<rparr> st of
           (Inl e, st') \<Rightarrow> (Inl e, st')
         | (Inr marketInfo, st') \<Rightarrow>
             (case get_property marketInfo (asset p) of
                Inl e \<Rightarrow> (Inl e, st')
              | Inr midPrice \<Rightarrow>
                  if \<not> truthy midPrice
                  then (Inl (NodeOperationError (''Could not find mid price for '' @ asset p)), st')
                  else
                    (case parseFloat midPrice of
                       Inl e \<Rightarrow> (Inl e, st')
                     | Inr m \<Rightarrow>
                         (Inr (if side p = ''B''
                               then number_to_string (multiply m literal_1_05)
                               else number_to_string (multiply m literal_0_95)),
                          st')))))"

definition order :: "parameters \<Rightarrow> string \<Rightarrow> jsval" where
  "order p px =
     JObj [(''a'', JNum (Num 0)),
           (''b'', JBool (side p = ''B'')),
           (''p'', JStr px),
           (''s'', JStr (orderSize p)),
           (''r'', JBool (reduceOnly p)),
           (''t'', JObj [(''limit'', JObj [(''tif'', JStr (if orderType p = ''market'' then ''Ioc'' else ''Gtc''))])]),
           (''c'', JStr (asset p))]"

definition order_action :: "parameters \<Rightarrow> string \<Rightarrow> jsval" where
  "order_action p px =
     JObj [(''type'', JStr ''order''), (''orders'', JArr [order p px]), (''grouping'', JStr ''na'')]"

definition asset_format_message :: string where
  "asset_format_message = ''HIP3 asset must be in format dex_name:ASSET (e.g., xyz:XYZ100)''"

definition placeOrder ::
  "'w host \<Rightarrow> credentials \<Rightarrow> parameters \<Rightarrow> 'w run_state \<Rightarrow> (error + jsval) \<times> 'w run_state" where
  "placeOrder h c p st =
     (if CHR '':'' \<notin> set (asset p) then (Inl (NodeOperationError asset_format_message), st)
      else
        (case limitPx h c p st of
           (Inl e, st1) \<Rightarrow> (Inl e, st1)
         | (Inr px, st1) \<Rightarrow>
             (case now h st1 of
                (timestamp, st2) \<Rightarrow> sign_and_send h c (order_action p px) timestamp st2)))"

subsection \<open>Lines 363 to 402: cancelOrder\<close>

definition cancel_action :: "parameters \<Rightarrow> jsval" where
  "cancel_action p =
     JObj [(''type'', JStr ''cancel''),
           (''cancels'', JArr [JObj [(''a'', JNum (Num 0)),
                                     (''o'', JNum (parseInt (orderId p) 0)),
                                     (''c'', JStr (coin p))]])]"

definition cancelOrder ::
  "'w host \<Rightarrow> credentials \<Rightarrow> parameters \<Rightarrow> 'w run_state \<Rightarrow> (error + jsval) \<times> 'w run_state" where
  "cancelOrder h c p st =
     (case now h st of
        (timestamp, st1) \<Rightarrow> sign_and_send h c (cancel_action p) timestamp st1)"

subsection \<open>Lines 404 to 441: cancelAllOrders\<close>

definition cancelByCloid_action :: "parameters \<Rightarrow> jsval" where
  "cancelByCloid_action p =
     JObj [(''type'', JStr ''cancelByCloid''),
           (''cancels'', JArr [JObj [(''asset'', JStr (asset p)), (''cloid'', JNull)]])]"

definition cancelAllOrders ::
  "'w host \<Rightarrow> credentials \<Rightarrow> parameters \<Rightarrow> 'w run_state \<Rightarrow> (error + jsval) \<times> 'w run_state" where
  "cancelAllOrders h c p st =
     (case now h st of
        (timestamp, st1) \<Rightarrow> sign_and_send h c (cancelByCloid_action p) timestamp st1)"

subsection \<open>Lines 443 to 514: the queries\<close>

definition info :: "'w host \<Rightarrow> credentials \<Rightarrow> jsval \<Rightarrow> 'w run_state \<Rightarrow> (error + jsval) \<times> 'w run_state" where
  "info h c b st = request h \<lparr>http_method = ''POST'', url = baseUrl (network c) @ ''/info'', body = b\<rparr> st"

subsection \<open>Lines 262 to 532: one input item\<close>

text \<open>The body of the \<open>try\<close> block up to the value of \<open>responseData\<close>; \<open>addr\<close> is the
  constant \<open>address\<close> of line 259. An operation that matches no branch leaves
  \<open>responseData\<close> undefined.\<close>

definition run_item ::
  "'w host \<Rightarrow> credentials \<Rightarrow> string \<Rightarrow> string \<Rightarrow> parameters \<Rightarrow> 'w run_state
     \<Rightarrow> (error + jsval) \<times> 'w run_state" where
  "run_item h c addr operation p st =
     (if operation = ''placeOrder'' then placeOrder h c p st
      else if operation = ''cancelOrder'' then cancelOrder h c p st
      else if operation = ''cancelAllOrders'' then cancelAllOrders h c p st
      else if operation = ''getOpenOrders'' then
        info h c (JObj [(''type'', JStr ''openOrders''), (''user'', JStr addr)]) st
      else if operation = ''getPositions'' then
        info h c (JObj [(''type'', JStr ''clearinghouseState''), (''user'', JStr addr)]) st
      else if operation = ''getAccountSummary'' then
        info h c (JObj [(''type'', JStr ''clearinghouseState''), (''user'', JStr addr)]) st
      else if operation = ''getMarketInfo'' then
        info h c (JObj [(''type'', JStr ''perpDexs'')]) st
      else if operation = ''getOrderBook'' then
        info h c (JObj [(''type'', JStr ''l2Book''), (''coin'', JStr (asset p))]) st
      else if operation = ''getUserFills'' then
        (let userAddr = (if userAddress p = [] then addr else userAddress p)
         in info h c (JObj [(''type'', JStr ''userFills''), (''user'', JStr userAddr)]) st)
      else (Inr JUndefined, st))"

subsection \<open>Lines 242 to 536: execute\<close>

text \<open>The \<open>for\<close> loop from item \<open>i\<close> on. A success appends the response; a failure
  appends \<open>{ error: error.message }\<close> and goes on when \<open>continueOnFail()\<close> holds, and is
  thrown again otherwise.\<close>

fun items_loop ::
  "'w host \<Rightarrow> credentials \<Rightarrow> string \<Rightarrow> string \<Rightarrow> nat \<Rightarrow> parameters list \<Rightarrow> execution_data list
     \<Rightarrow> 'w run_state \<Rightarrow> (error + execution_data list) \<times> 'w run_state" where
  "items_loop h c addr operation i [] returnData st = (Inr returnData, st)"
| "items_loop h c addr operation i (p # ps) returnData st =
     (case run_item h c addr operation p st of
        (Inr responseData, st') \<Rightarrow>
          items_loop h c addr operation (Suc i) ps
            (returnData @ [\<lparr>json = responseData, pairedItem = i\<rparr>]) st'
      | (Inl err, st') \<Rightarrow>
          if continueOnFail h
          then items_loop h c addr operation (Suc i) ps
                 (returnData @ [\<lparr>json = JObj [(''error'', JStr (message err))], pairedItem = i\<rparr>]) st'
          else (Inl err, st'))"

text \<open>The whole method: the wallet is built before the loop and outside the \<open>try\<close>,
  so a private key it rejects fails the call at once. The result is \<open>returnData\<close>,
  which the method returns as \<open>[returnData]\<close>.\<close>

definition execute ::
  "'w host \<Rightarrow> credentials \<Rightarrow> string \<Rightarrow> parameters list \<Rightarrow> 'w run_state
     \<Rightarrow> (error + execution_data list) \<times> 'w run_state" where
  "execute h c operation items st =
     (case Wallet_address h (privateKey c) of
        Inl m \<Rightarrow> (Inl (WalletError m), st)
      | Inr wallet_address \<Rightarrow>
          items_loop h c (address c wallet_address) operation 0 items [] st)"

section \<open>Notions used to state the properties\<close>

text \<open>The requests a computation added to the log, given the log it started from.\<close>

definition new_requests :: "'w run_state \<Rightarrow> 'a \<times> 'w run_state \<Rightarrow> http_request list" where
  "new_requests st res = drop (length (sent st)) (sent (snd res))"

text \<open>The \<open>user\<close> a query names.\<close>

definition user_of :: "http_request \<Rightarrow> jsval" where
  "user_of req = (case get_property (body req) ''user'' of Inr v \<Rightarrow> v | Inl e \<Rightarrow> JUndefined)"

text \<open>A request to \<open>/exchange\<close> is consistent when the signature it carries is the
  signature, under the credential's key, of the hash of the serialization of the very
  \<open>action\<close>, \<open>nonce\<close> and \<open>vaultAddress\<close> it carries.\<close>

definition signature_covers_envelope :: "'w host \<Rightarrow> credentials \<Rightarrow> http_request \<Rightarrow> bool" where
  "signature_covers_envelope h c req =
     (case body req of
        JObj [(k1, action), (k2, nonce), (k3, signature), (k4, vault)] \<Rightarrow>
          k1 = ''action'' \<and> k2 = ''nonce'' \<and> k3 = ''signature'' \<and> k4 = ''vaultAddress'' \<and>
          signature =
            split_signature
              (signMessage h (privateKey c)
                 (keccak256 h
                    (stringify_object
                       [(''action'', action), (''nonce'', nonce), (''vaultAddress'', vault)])))
      | _ \<Rightarrow> False)"

definition is_exchange :: "credentials \<Rightarrow> http_request \<Rightarrow> bool" where
  "is_exchange c req = (url req = baseUrl (network c) @ ''/exchange'')"

text \<open>A host to run examples on. Its world counts the requests made; the second
  request of a run is rejected, every other one is answered with \<open>{status: "ok"}\<close>. The
  clock stands still, and the hash and the signature are stand-ins of the right
  shape.\<close>

definition demo_host :: "bool \<Rightarrow> nat host" where
  "demo_host isolate =
     \<lparr>helpers_request =
        (\<lambda>req n. (if n = 1 then Inl ''socket hang up'' else Inr (JObj [(''status'', JStr ''ok'')]), Suc n)),
      Date_now = (\<lambda>n. (1700000000000, n)),
      continueOnFail = isolate,
      Wallet_address = (\<lambda>key. if key = [] then Inl ''invalid private key'' else Inr ''0xKKK''),
      keccak256 = (\<lambda>text. ''0x'' @ take 4 (rev text)),
      signMessage = (\<lambda>key hash. ''0x'' @ replicate 64 (CHR ''a'') @ replicate 64 (CHR ''b'') @ ''1b'')\<rparr>"

definition demo_credentials :: credentials where
  "demo_credentials =
     \<lparr>privateKey = ''abc123'', walletAddress = ''0xWWW'', network = ''mainnet'', vaultAddress = ''0xVVV''\<rparr>"

definition demo_parameters :: parameters where
  "demo_parameters =
     \<lparr>asset = ''xyz:XYZ100'', side = ''B'', orderSize = ''1.0'', orderType = ''limit'', price = ''100.5'',
      reduceOnly = False, orderId = ''42'', coin = ''xyz:XYZ100'', userAddress = []\<rparr>"

definition start :: "nat run_state" where
  "start = \<lparr>world = 0, sent = []\<rparr>"

text \<open>A host that answers every request with the mid prices \<open>{"xyz:XYZ100": "100"}\<close>.\<close>

definition mids_host :: "nat host" where
  "mids_host =
     (demo_host False)
       \<lparr>helpers_request := (\<lambda>req n. (Inr (JObj [(''xyz:XYZ100'', JStr ''100'')]), Suc n))\<rparr>"

text \<open>For a batch: the state in which item \<open>i\<close> starts, which is the state the
  first \<open>i\<close> items leave behind; what running item \<open>i\<close> there gives; and the entry of
  \<open>returnData\<close> that stands for an outcome.\<close>

definition state_before ::
  "'w host \<Rightarrow> credentials \<Rightarrow> string \<Rightarrow> parameters list \<Rightarrow> nat \<Rightarrow> 'w run_state \<Rightarrow> 'w run_state" where
  "state_before h c operation items i st = snd (execute h c operation (take i items) st)"

definition item_outcome ::
  "'w host \<Rightarrow> credentials \<Rightarrow> string \<Rightarrow> string \<Rightarrow> parameters list \<Rightarrow> nat \<Rightarrow> 'w run_state
     \<Rightarrow> (error + jsval) \<times> 'w run_state" where
  "item_outcome h c wallet_address operation items i st =
     run_item h c (address c wallet_address) operation (items ! i) (state_before h c operation items i st)"

definition result_entry :: "nat \<Rightarrow> error + jsval \<Rightarrow> execution_data" where
  "result_entry i r =
     \<lparr>json = (case r of Inl e \<Rightarrow> JObj [(''error'', JStr (message e))] | Inr v \<Rightarrow> v), pairedItem = i\<rparr>"

section \<open>Properties\<close>

subsection \<open>The log of requests\<close>

declare digits_of.simps [simp del]

declare shortest_digits.simps [simp del]

lemma request_sent: "sent (snd (request h req st)) = sent st @ [req]"
  by (simp add: request_def split: prod.splits)

lemma now_sent: "sent (snd (now h st)) = sent st"
  by (simp add: now_def split: prod.splits)

lemma now_sent': "now h st = (t, st') \<Longrightarrow> sent st' = sent st"
  using now_sent [of h st] by simp

lemma sign_and_send_sent:
  "sent (snd (sign_and_send h c action t st)) =
     sent st @ [\<lparr>http_method = ''POST'', url = baseUrl (network c) @ ''/exchange'',
                 body = exchange_body c action t (sign h c action t)\<rparr>]"
  by (simp add: sign_and_send_def Let_def request_sent)

lemma info_sent:
  "sent (snd (info h c b st)) = sent st @ [\<lparr>http_method = ''POST'', url = baseUrl (network c) @ ''/info'', body = b\<rparr>]"
  by (simp add: info_def request_sent)

lemma items_loop_sent:
  assumes step: "\<And>p st. p \<in> set ps \<Longrightarrow>
      \<exists>new. sent (snd (run_item h c addr operation p st)) = sent st @ new \<and> list_all P new"
  shows "\<exists>new. sent (snd (items_loop h c addr operation i ps returnData st)) = sent st @ new \<and> list_all P new"
  using step
proof (induction ps arbitrary: i returnData st)
  case Nil
  then show ?case by simp
next
  case (Cons p ps)
  obtain r st' where run: "run_item h c addr operation p st = (r, st')"
    by (cases "run_item h c addr operation p st")
  from Cons.prems [of p st] run obtain new1 where
    new1: "sent st' = sent st @ new1" "list_all P new1" by auto
  have rest: "\<exists>new. sent (snd (items_loop h c addr operation j ps rd st')) = sent st' @ new \<and> list_all P new"
    for j rd
    by (rule Cons.IH) (simp add: Cons.prems)
  show ?case
  proof (cases r)
    case (Inl err)
    show ?thesis
    proof (cases "continueOnFail h")
      case True
      from rest obtain new2 where
        "sent (snd (items_loop h c addr operation (Suc i) ps
           (returnData @ [\<lparr>json = JObj [(''error'', JStr (message err))], pairedItem = i\<rparr>]) st')) = sent st' @ new2"
        "list_all P new2" by blast
      with new1 run Inl True show ?thesis by (intro exI [of _ "new1 @ new2"]) simp
    next
      case False
      with new1 run Inl show ?thesis by (intro exI [of _ new1]) simp
    qed
  next
    case (Inr v)
    from rest obtain new2 where
      "sent (snd (items_loop h c addr operation (Suc i) ps
         (returnData @ [\<lparr>json = v, pairedItem = i\<rparr>]) st')) = sent st' @ new2"
      "list_all P new2" by blast
    with new1 run Inr show ?thesis by (intro exI [of _ "new1 @ new2"]) simp
  qed
qed

lemma execute_sent:
  assumes step: "\<And>p st wa. p \<in> set items \<Longrightarrow> Wallet_address h (privateKey c) = Inr wa \<Longrightarrow>
      \<exists>new. sent (snd (run_item h c (address c wa) operation p st)) = sent st @ new \<and> list_all P new"
  shows "list_all P (new_requests st (execute h c operation items st))"
proof (cases "Wallet_address h (privateKey c)")
  case (Inl m)
  then show ?thesis by (simp add: execute_def new_requests_def)
next
  case (Inr wa)
  from items_loop_sent [of items h c "address c wa" operation P 0 "[]" st] step Inr
  obtain new where "sent (snd (items_loop h c (address c wa) operation 0 items [] st)) = sent st @ new"
    "list_all P new" by blast
  with Inr show ?thesis by (simp add: execute_def new_requests_def)
qed

lemma new_requests_append: "sent (snd res) = sent st @ new \<Longrightarrow> new_requests st res = new"
  by (simp add: new_requests_def)

lemma sign_and_send_no_validation_error:
  "fst (sign_and_send h c action t st) \<noteq> Inl (NodeOperationError m)"
  by (simp add: sign_and_send_def Let_def request_def split: prod.splits sum.splits)

lemma placeOrder_no_colon:
  "CHR '':'' \<notin> set (asset p) \<Longrightarrow>
     run_item h c addr ''placeOrder'' p st = (Inl (NodeOperationError asset_format_message), st)"
  by (simp add: run_item_def placeOrder_def)

lemma now_world: "now h st = (fst (Date_now h (world st)), st\<lparr>world := snd (Date_now h (world st))\<rparr>)"
  by (simp add: now_def split: prod.splits)

lemmas demo_defs = demo_host_def demo_credentials_def demo_parameters_def start_def

lemma demo_wallet: "Wallet_address (demo_host b) (privateKey demo_credentials) = Inr ''0xKKK''"
  by (simp add: demo_defs)

lemma limitPx_limit:
  "orderType p = ''limit'' \<Longrightarrow> price p \<noteq> [] \<Longrightarrow> limitPx h c p st = (Inr (price p), st)"
  by (simp add: limitPx_def)

lemma limitPx_limit_empty:
  "orderType p = ''limit'' \<Longrightarrow> price p = [] \<Longrightarrow>
     limitPx h c p st = (Inl (NodeOperationError ''Price is required for limit orders''), st)"
  by (simp add: limitPx_def)

lemma to_string_error:
  shows "to_string v = Inl e \<longrightarrow> (\<exists>m. e = TypeError m)"
    and "join_elements vs = Inl e \<longrightarrow> (\<exists>m. e = TypeError m)"
  by (induction v and vs rule: to_string_join_elements.induct)
     (auto split: sum.splits if_splits)

lemma parseFloat_error: "parseFloat v = Inl e \<Longrightarrow> \<exists>m. e = TypeError m"
  using to_string_error(1) [of v e] by (auto simp: parseFloat_def split: sum.splits)

lemma limitPx_not_asset_error:
  "fst (limitPx h c p st) \<noteq> Inl (NodeOperationError asset_format_message)"
  by (auto simp: limitPx_def request_def get_property_def asset_format_message_def
        split: prod.splits sum.splits jsval.splits dest: parseFloat_error)

lemma one_colon: "count_list s (CHR '':'') = 1 \<Longrightarrow> CHR '':'' \<in> set s"
  by (metis count_list_0_iff zero_neq_one)

subsection \<open>The trading address\<close>

lemma user_of_info:
  "user_of \<lparr>http_method = m, url = u, body = JObj [(''type'', t), (''user'', JStr a)]\<rparr> = JStr a"
  by (simp add: user_of_def get_property_def)

text \<open>
  C6. The address named as \<open>user\<close> in the user-scoped queries is the vault address
  when one is set, else the wallet address override when one is set, else the address
  derived from the private key. This holds of every request of a batch of
  \<open>getOpenOrders\<close>, \<open>getPositions\<close> or \<open>getAccountSummary\<close>, and of \<open>getUserFills\<close>
  when no item names a user address of its own.
\<close>

theorem effective_address_priority:
  assumes wallet: "Wallet_address h (privateKey c) = Inr derived"
    and op: "operation = ''getOpenOrders'' \<or> operation = ''getPositions'' \<or> operation = ''getAccountSummary''
             \<or> (operation = ''getUserFills'' \<and> list_all (\<lambda>p. userAddress p = []) items)"
  shows "list_all
           (\<lambda>req. user_of req =
              JStr (if vaultAddress c \<noteq> [] then vaultAddress c
                    else if walletAddress c \<noteq> [] then walletAddress c
                    else derived))
           (new_requests st (execute h c operation items st))"
proof (rule execute_sent)
  fix p st wa
  assume p: "p \<in> set items" and "Wallet_address h (privateKey c) = Inr wa"
  with wallet have wa: "wa = derived" by simp
  let ?P = "\<lambda>req. user_of req =
              JStr (if vaultAddress c \<noteq> [] then vaultAddress c
                    else if walletAddress c \<noteq> [] then walletAddress c
                    else derived)"
  from op p have "\<exists>t. sent (snd (run_item h c (address c wa) operation p st)) =
      sent st @ [\<lparr>http_method = ''POST'', url = baseUrl (network c) @ ''/info'',
                  body = JObj [(''type'', t), (''user'', JStr (address c wa))]\<rparr>]"
    by (auto simp: run_item_def info_sent list_all_iff)
  then obtain t where "sent (snd (run_item h c (address c wa) operation p st)) =
      sent st @ [\<lparr>http_method = ''POST'', url = baseUrl (network c) @ ''/info'',
                  body = JObj [(''type'', t), (''user'', JStr (address c wa))]\<rparr>]" ..
  moreover have "?P \<lparr>http_method = ''POST'', url = baseUrl (network c) @ ''/info'',
                  body = JObj [(''type'', t), (''user'', JStr (address c wa))]\<rparr>"
    by (simp only: user_of_info) (simp add: address_def wa)
  ultimately show "\<exists>new. sent (snd (run_item h c (address c wa) operation p st)) = sent st @ new \<and> list_all ?P new"
    by (intro exI [of _ "[\<lparr>http_method = ''POST'', url = baseUrl (network c) @ ''/info'',
                  body = JObj [(''type'', t), (''user'', JStr (address c wa))]\<rparr>]"]) simp
qed

text \<open>With the vault set to \<open>0xVVV\<close> and the wallet override to \<open>0xWWW\<close>, the query
  names \<open>0xVVV\<close>.\<close>

theorem effective_address_priority_witness:
  "new_requests start (execute (demo_host True) demo_credentials ''getPositions'' [demo_parameters] start)
     = [\<lparr>http_method = ''POST'', url = ''https://api.hyperliquid.xyz/info'',
         body = JObj [(''type'', JStr ''clearinghouseState''), (''user'', JStr ''0xVVV'')]\<rparr>]
   \<and> list_all (\<lambda>req. user_of req = JStr ''0xVVV'')
        (new_requests start (execute (demo_host True) demo_credentials ''getPositions'' [demo_parameters] start))"
proof
  show "new_requests start (execute (demo_host True) demo_credentials ''getPositions'' [demo_parameters] start)
     = [\<lparr>http_method = ''POST'', url = ''https://api.hyperliquid.xyz/info'',
         body = JObj [(''type'', JStr ''clearinghouseState''), (''user'', JStr ''0xVVV'')]\<rparr>]"
    by (simp add: new_requests_def execute_def run_item_def info_def request_def address_def baseUrl_def demo_defs)
  show "list_all (\<lambda>req. user_of req = JStr ''0xVVV'')
        (new_requests start (execute (demo_host True) demo_credentials ''getPositions'' [demo_parameters] start))"
    using effective_address_priority [OF demo_wallet [of True],
        where operation = "''getPositions''" and items = "[demo_parameters]" and st = start]
    by (simp add: demo_credentials_def)
qed

subsection \<open>Positions and account summary\<close>

lemma items_loop_cong_operation:
  assumes "\<And>p st. run_item h c addr op1 p st = run_item h c addr op2 p st"
  shows "items_loop h c addr op1 i ps returnData st = items_loop h c addr op2 i ps returnData st"
  using assms by (induction ps arbitrary: i returnData st) (simp_all split: prod.splits sum.splits)

text \<open>
  C9. \<open>getPositions\<close> and \<open>getAccountSummary\<close> are the same computation: on every
  batch and from every state they make the same requests and return the same result,
  and for each item that request is the \<open>POST\<close> of
  \<open>{type: 'clearinghouseState', user}\<close> to \<open>/info\<close>, with the effective address as
  \<open>user\<close>.
\<close>

theorem positions_and_summary_same_request:
  "execute h c ''getPositions'' items st = execute h c ''getAccountSummary'' items st
   \<and> new_requests st (run_item h c addr ''getPositions'' p st) =
       [\<lparr>http_method = ''POST'', url = baseUrl (network c) @ ''/info'',
         body = JObj [(''type'', JStr ''clearinghouseState''), (''user'', JStr addr)]\<rparr>]
   \<and> new_requests st (run_item h c addr ''getAccountSummary'' p st) =
       [\<lparr>http_method = ''POST'', url = baseUrl (network c) @ ''/info'',
         body = JObj [(''type'', JStr ''clearinghouseState''), (''user'', JStr addr)]\<rparr>]"
proof (intro conjI)
  have "run_item h c a ''getPositions'' q s = run_item h c a ''getAccountSummary'' q s" for a q s
    by (simp add: run_item_def)
  then have "items_loop h c a ''getPositions'' 0 items [] st = items_loop h c a ''getAccountSummary'' 0 items [] st" for a
    by (rule items_loop_cong_operation)
  then show "execute h c ''getPositions'' items st = execute h c ''getAccountSummary'' items st"
    by (simp add: execute_def split: sum.splits)
  show "new_requests st (run_item h c addr ''getPositions'' p st) =
       [\<lparr>http_method = ''POST'', url = baseUrl (network c) @ ''/info'',
         body = JObj [(''type'', JStr ''clearinghouseState''), (''user'', JStr addr)]\<rparr>]"
    by (rule new_requests_append) (simp add: run_item_def info_sent)
  show "new_requests st (run_item h c addr ''getAccountSummary'' p st) =
       [\<lparr>http_method = ''POST'', url = baseUrl (network c) @ ''/info'',
         body = JObj [(''type'', JStr ''clearinghouseState''), (''user'', JStr addr)]\<rparr>]"
    by (rule new_requests_append) (simp add: run_item_def info_sent)
qed

subsection \<open>Validation of the asset\<close>

text \<open>
  C10. \<open>cancelAllOrders\<close> does not look at the format of the asset: for every asset
  string it sends exactly one request, the signed \<open>cancelByCloid\<close> action for that asset,
  to \<open>/exchange\<close>, and never fails with a \<open>NodeOperationError\<close>; \<open>placeOrder\<close> rejects
  an asset without a colon before anything is sent.
\<close>

theorem cancelAllOrders_no_asset_validation:
  "new_requests st (run_item h c addr ''cancelAllOrders'' p st) =
     [\<lparr>http_method = ''POST'', url = baseUrl (network c) @ ''/exchange'',
       body = exchange_body c
                (JObj [(''type'', JStr ''cancelByCloid''),
                       (''cancels'', JArr [JObj [(''asset'', JStr (asset p)), (''cloid'', JNull)]])])
                (fst (Date_now h (world st)))
                (sign h c
                   (JObj [(''type'', JStr ''cancelByCloid''),
                          (''cancels'', JArr [JObj [(''asset'', JStr (asset p)), (''cloid'', JNull)]])])
                   (fst (Date_now h (world st))))\<rparr>]
   \<and> (\<forall>m. fst (run_item h c addr ''cancelAllOrders'' p st) \<noteq> Inl (NodeOperationError m))
   \<and> (CHR '':'' \<notin> set (asset p) \<longrightarrow>
        run_item h c addr ''placeOrder'' p st = (Inl (NodeOperationError asset_format_message), st))"
proof (intro conjI allI impI)
  show "new_requests st (run_item h c addr ''cancelAllOrders'' p st) =
     [\<lparr>http_method = ''POST'', url = baseUrl (network c) @ ''/exchange'',
       body = exchange_body c
                (JObj [(''type'', JStr ''cancelByCloid''),
                       (''cancels'', JArr [JObj [(''asset'', JStr (asset p)), (''cloid'', JNull)]])])
                (fst (Date_now h (world st)))
                (sign h c
                   (JObj [(''type'', JStr ''cancelByCloid''),
                          (''cancels'', JArr [JObj [(''asset'', JStr (asset p)), (''cloid'', JNull)]])])
                   (fst (Date_now h (world st))))\<rparr>]"
    by (rule new_requests_append)
       (simp add: run_item_def cancelAllOrders_def cancelByCloid_action_def now_world sign_and_send_sent)
next
  fix m
  show "fst (run_item h c addr ''cancelAllOrders'' p st) \<noteq> Inl (NodeOperationError m)"
    by (simp add: run_item_def cancelAllOrders_def now_world sign_and_send_no_validation_error)
next
  assume "CHR '':'' \<notin> set (asset p)"
  then show "run_item h c addr ''placeOrder'' p st = (Inl (NodeOperationError asset_format_message), st)"
    by (rule placeOrder_no_colon)
qed

text \<open>The asset \<open>BTC\<close> has no colon: \<open>placeOrder\<close> rejects it, \<open>cancelAllOrders\<close>
  sends its request and returns the answer.\<close>

theorem cancelAllOrders_no_asset_validation_witness:
  "CHR '':'' \<notin> set (asset (demo_parameters\<lparr>asset := ''BTC''\<rparr>))
   \<and> run_item (demo_host False) demo_credentials ''0xVVV'' ''placeOrder''
         (demo_parameters\<lparr>asset := ''BTC''\<rparr>) start
       = (Inl (NodeOperationError asset_format_message), start)
   \<and> map url (new_requests start
         (run_item (demo_host False) demo_credentials ''0xVVV'' ''cancelAllOrders''
            (demo_parameters\<lparr>asset := ''BTC''\<rparr>) start))
       = [''https://api.hyperliquid.xyz/exchange'']
   \<and> fst (run_item (demo_host False) demo_credentials ''0xVVV'' ''cancelAllOrders''
            (demo_parameters\<lparr>asset := ''BTC''\<rparr>) start)
       = Inr (JObj [(''status'', JStr ''ok'')])"
proof -
  have no_colon: "CHR '':'' \<notin> set (asset (demo_parameters\<lparr>asset := ''BTC''\<rparr>))"
    by (simp add: demo_parameters_def)
  note inst = cancelAllOrders_no_asset_validation
    [where st = start and h = "demo_host False" and c = demo_credentials and addr = "''0xVVV''"
       and p = "demo_parameters\<lparr>asset := ''BTC''\<rparr>"]
  from inst no_colon have "run_item (demo_host False) demo_credentials ''0xVVV'' ''placeOrder''
         (demo_parameters\<lparr>asset := ''BTC''\<rparr>) start
       = (Inl (NodeOperationError asset_format_message), start)"
    by blast
  moreover from inst have "map url (new_requests start
         (run_item (demo_host False) demo_credentials ''0xVVV'' ''cancelAllOrders''
            (demo_parameters\<lparr>asset := ''BTC''\<rparr>) start))
       = [''https://api.hyperliquid.xyz/exchange'']"
    by (simp add: baseUrl_def demo_credentials_def)
  moreover have "fst (run_item (demo_host False) demo_credentials ''0xVVV'' ''cancelAllOrders''
            (demo_parameters\<lparr>asset := ''BTC''\<rparr>) start)
       = Inr (JObj [(''status'', JStr ''ok'')])"
    by (simp add: run_item_def cancelAllOrders_def now_def sign_and_send_def request_def Let_def demo_host_def start_def)
  ultimately show ?thesis using no_colon by blast
qed

text \<open>
  C4. For \<open>placeOrder\<close>, an asset with exactly one colon passes the validation of the
  asset: the operation does not fail with the asset-format error, and once the limit
  price is known the order action is built, signed and sent. An asset with no colon
  fails with the asset-format \<open>NodeOperationError\<close>, and nothing is sent.
\<close>

theorem placeOrder_asset_validation:
  "(count_list (asset p) (CHR '':'') = 1 \<longrightarrow>
      fst (run_item h c addr ''placeOrder'' p st) \<noteq> Inl (NodeOperationError asset_format_message)
      \<and> (\<forall>px st1. limitPx h c p st = (Inr px, st1) \<longrightarrow>
            run_item h c addr ''placeOrder'' p st =
              sign_and_send h c (order_action p px) (fst (now h st1)) (snd (now h st1))))
   \<and> (CHR '':'' \<notin> set (asset p) \<longrightarrow>
        run_item h c addr ''placeOrder'' p st = (Inl (NodeOperationError asset_format_message), st))"
proof (intro conjI impI allI)
  assume "count_list (asset p) (CHR '':'') = 1"
  then have colon: "CHR '':'' \<in> set (asset p)" by (rule one_colon)
  show "fst (run_item h c addr ''placeOrder'' p st) \<noteq> Inl (NodeOperationError asset_format_message)"
  proof (cases "limitPx h c p st")
    case (Pair r st1)
    show ?thesis
    proof (cases r)
      case (Inl e)
      with limitPx_not_asset_error [of h c p st] Pair colon show ?thesis
        by (simp add: run_item_def placeOrder_def)
    next
      case (Inr px)
      with Pair colon show ?thesis
        by (simp add: run_item_def placeOrder_def sign_and_send_no_validation_error split: prod.splits)
    qed
  qed
next
  fix px st1
  assume "count_list (asset p) (CHR '':'') = 1" and "limitPx h c p st = (Inr px, st1)"
  then show "run_item h c addr ''placeOrder'' p st =
              sign_and_send h c (order_action p px) (fst (now h st1)) (snd (now h st1))"
    by (simp add: run_item_def placeOrder_def one_colon split: prod.splits)
next
  assume "CHR '':'' \<notin> set (asset p)"
  then show "run_item h c addr ''placeOrder'' p st = (Inl (NodeOperationError asset_format_message), st)"
    by (rule placeOrder_no_colon)
qed

text \<open>\<open>xyz:XYZ100\<close> has one colon and the order is placed; \<open>BTC\<close> has none.\<close>

theorem placeOrder_asset_validation_witness:
  "count_list (asset demo_parameters) (CHR '':'') = 1
   \<and> limitPx (demo_host False) demo_credentials demo_parameters start = (Inr ''100.5'', start)
   \<and> fst (run_item (demo_host False) demo_credentials ''0xVVV'' ''placeOrder'' demo_parameters start)
       = Inr (JObj [(''status'', JStr ''ok'')])
   \<and> CHR '':'' \<notin> set (asset (demo_parameters\<lparr>asset := ''BTC''\<rparr>))
   \<and> run_item (demo_host False) demo_credentials ''0xVVV'' ''placeOrder''
         (demo_parameters\<lparr>asset := ''BTC''\<rparr>) start
       = (Inl (NodeOperationError asset_format_message), start)"
proof -
  have one: "count_list (asset demo_parameters) (CHR '':'') = 1"
    by (simp add: demo_parameters_def)
  have px: "limitPx (demo_host False) demo_credentials demo_parameters start = (Inr ''100.5'', start)"
    by (simp add: limitPx_def demo_parameters_def)
  have none: "CHR '':'' \<notin> set (asset (demo_parameters\<lparr>asset := ''BTC''\<rparr>))"
    by (simp add: demo_parameters_def)
  from placeOrder_asset_validation
         [where p = demo_parameters and h = "demo_host False" and c = demo_credentials
            and addr = "''0xVVV''" and st = start] one px
  have "run_item (demo_host False) demo_credentials ''0xVVV'' ''placeOrder'' demo_parameters start =
          sign_and_send (demo_host False) demo_credentials (order_action demo_parameters ''100.5'')
            (fst (now (demo_host False) start)) (snd (now (demo_host False) start))"
    by blast
  then have sent_ok: "fst (run_item (demo_host False) demo_credentials ''0xVVV'' ''placeOrder'' demo_parameters start)
       = Inr (JObj [(''status'', JStr ''ok'')])"
    by (simp add: now_def sign_and_send_def request_def Let_def demo_host_def start_def)
  from placeOrder_asset_validation
         [where p = "demo_parameters\<lparr>asset := ''BTC''\<rparr>" and h = "demo_host False"
            and c = demo_credentials and addr = "''0xVVV''" and st = start] none
  have "run_item (demo_host False) demo_credentials ''0xVVV'' ''placeOrder''
         (demo_parameters\<lparr>asset := ''BTC''\<rparr>) start
       = (Inl (NodeOperationError asset_format_message), start)"
    by blast
  with one px sent_ok none show ?thesis by blast
qed

subsection \<open>The price of a limit order\<close>

text \<open>
  C5. For a limit \<open>placeOrder\<close>: an empty \<open>price\<close> fails with a
  \<open>NodeOperationError\<close> and sends nothing; a non-empty \<open>price\<close> is the limit price as
  it stands, it is the field \<open>p\<close> of the order, and the order sent to \<open>/exchange\<close>
  (the asset having its colon) is built from that very string.
\<close>

theorem limit_order_price:
  assumes limit: "orderType p = ''limit''"
  shows "(price p = [] \<longrightarrow>
            (\<exists>m. fst (run_item h c addr ''placeOrder'' p st) = Inl (NodeOperationError m))
            \<and> snd (run_item h c addr ''placeOrder'' p st) = st)
       \<and> (price p \<noteq> [] \<longrightarrow>
            limitPx h c p st = (Inr (price p), st)
            \<and> get_property (order p (price p)) ''p'' = Inr (JStr (price p))
            \<and> (CHR '':'' \<in> set (asset p) \<longrightarrow>
                 new_requests st (run_item h c addr ''placeOrder'' p st) =
                   [\<lparr>http_method = ''POST'', url = baseUrl (network c) @ ''/exchange'',
                     body = exchange_body c (order_action p (price p)) (fst (Date_now h (world st)))
                              (sign h c (order_action p (price p)) (fst (Date_now h (world st))))\<rparr>]))"
proof (intro conjI impI)
  assume empty: "price p = []"
  show "\<exists>m. fst (run_item h c addr ''placeOrder'' p st) = Inl (NodeOperationError m)"
    using limit empty by (simp add: run_item_def placeOrder_def limitPx_limit_empty)
  show "snd (run_item h c addr ''placeOrder'' p st) = st"
    using limit empty by (simp add: run_item_def placeOrder_def limitPx_limit_empty)
next
  assume "price p \<noteq> []"
  with limit show "limitPx h c p st = (Inr (price p), st)" by (rule limitPx_limit)
next
  show "get_property (order p (price p)) ''p'' = Inr (JStr (price p))"
    by (simp add: get_property_def order_def)
next
  assume "price p \<noteq> []" and "CHR '':'' \<in> set (asset p)"
  then show "new_requests st (run_item h c addr ''placeOrder'' p st) =
                   [\<lparr>http_method = ''POST'', url = baseUrl (network c) @ ''/exchange'',
                     body = exchange_body c (order_action p (price p)) (fst (Date_now h (world st)))
                              (sign h c (order_action p (price p)) (fst (Date_now h (world st))))\<rparr>]"
    using limit
    by (intro new_requests_append)
       (simp add: run_item_def placeOrder_def limitPx_limit now_world sign_and_send_sent)
qed

text \<open>The price \<open>100.5\<close> is sent as the string \<open>100.5\<close>; without a price the order
  fails.\<close>

theorem limit_order_price_witness:
  "orderType demo_parameters = ''limit'' \<and> price demo_parameters \<noteq> []
   \<and> limitPx (demo_host False) demo_credentials demo_parameters start = (Inr ''100.5'', start)
   \<and> get_property (order demo_parameters ''100.5'') ''p'' = Inr (JStr ''100.5'')
   \<and> orderType (demo_parameters\<lparr>price := []\<rparr>) = ''limit'' \<and> price (demo_parameters\<lparr>price := []\<rparr>) = []
   \<and> run_item (demo_host False) demo_credentials ''0xVVV'' ''placeOrder'' (demo_parameters\<lparr>price := []\<rparr>) start
       = (Inl (NodeOperationError ''Price is required for limit orders''), start)"
proof -
  have limit: "orderType demo_parameters = ''limit''" and given: "price demo_parameters \<noteq> []"
    and px: "price demo_parameters = ''100.5''"
    by (simp_all add: demo_parameters_def)
  have limit': "orderType (demo_parameters\<lparr>price := []\<rparr>) = ''limit''"
    and empty: "price (demo_parameters\<lparr>price := []\<rparr>) = []"
    by (simp_all add: demo_parameters_def)
  from limit_order_price [OF limit, where h = "demo_host False" and c = demo_credentials
         and addr = "''0xVVV''" and st = start] given px
  have a: "limitPx (demo_host False) demo_credentials demo_parameters start = (Inr ''100.5'', start)"
    and b: "get_property (order demo_parameters ''100.5'') ''p'' = Inr (JStr ''100.5'')"
    by simp_all
  from limit_order_price [OF limit', where h = "demo_host False" and c = demo_credentials
         and addr = "''0xVVV''" and st = start] empty
  have "snd (run_item (demo_host False) demo_credentials ''0xVVV'' ''placeOrder'' (demo_parameters\<lparr>price := []\<rparr>) start) = start"
    by blast
  moreover have "fst (run_item (demo_host False) demo_credentials ''0xVVV'' ''placeOrder'' (demo_parameters\<lparr>price := []\<rparr>) start)
      = Inl (NodeOperationError ''Price is required for limit orders'')"
    by (simp add: run_item_def placeOrder_def limitPx_def demo_parameters_def)
  ultimately have c: "run_item (demo_host False) demo_credentials ''0xVVV'' ''placeOrder'' (demo_parameters\<lparr>price := []\<rparr>) start
       = (Inl (NodeOperationError ''Price is required for limit orders''), start)"
    by (simp add: prod_eq_iff)
  from limit given a b limit' empty c show ?thesis by blast
qed

subsection \<open>The price of a market order\<close>

text \<open>The mid price \<open>"100"\<close> is the double 100; its products with the literals
  \<open>1.05\<close> and \<open>0.95\<close> are the doubles 105 and 95, which print as \<open>105\<close> and \<open>95\<close>.\<close>

lemma parseFloat_100: "parseFloat (JStr ''100'') = Inr (Num 100)"
  by code_simp

lemma buy_105: "number_to_string (multiply (Num 100) literal_1_05) = ''105''"
  by code_simp

lemma sell_95: "number_to_string (multiply (Num 100) literal_0_95) = ''95''"
  by code_simp

lemma literal_values:
  "literal_1_05 = Num (4728779608739021 / 4503599627370496)"
  "literal_0_95 = Num (4278419646001971 / 4503599627370496)"
  by code_simp+

text \<open>
  C2. For a market \<open>placeOrder\<close> whose mid price \<open>midPrice\<close> was returned and reads as
  the number \<open>m\<close>, the limit price is \<open>m * 1.05\<close> for the side \<open>B\<close> (buy) and
  \<open>m * 0.95\<close> for any other side, \<open>A\<close> (sell) among them: the product of doubles,
  printed as JavaScript prints a number. It is the field \<open>p\<close> of the order, which is
  sent after the query for the mid prices.
\<close>

theorem market_order_limit_price:
  assumes market: "orderType p \<noteq> ''limit''"
    and answer: "request h \<lparr>http_method = ''POST'', url = baseUrl (network c) @ ''/info'',
                            body = JObj [(''type'', JStr ''allMids'')]\<rparr> st = (Inr marketInfo, st')"
    and mid: "get_property marketInfo (asset p) = Inr midPrice" "truthy midPrice"
    and m: "parseFloat midPrice = Inr m"
    and px: "px = number_to_string (multiply m (if side p = ''B'' then literal_1_05 else literal_0_95))"
  shows "limitPx h c p st = (Inr px, st')
       \<and> (CHR '':'' \<in> set (asset p) \<longrightarrow>
            new_requests st (run_item h c addr ''placeOrder'' p st) =
              [\<lparr>http_method = ''POST'', url = baseUrl (network c) @ ''/info'',
                body = JObj [(''type'', JStr ''allMids'')]\<rparr>,
               \<lparr>http_method = ''POST'', url = baseUrl (network c) @ ''/exchange'',
                body = exchange_body c (order_action p px) (fst (Date_now h (world st')))
                         (sign h c (order_action p px) (fst (Date_now h (world st'))))\<rparr>])
       \<and> get_property (order p px) ''p'' = Inr (JStr px)"
proof (intro conjI impI)
  show price: "limitPx h c p st = (Inr px, st')"
    using assms by (simp add: limitPx_def)
  show "get_property (order p px) ''p'' = Inr (JStr px)"
    by (simp add: get_property_def order_def)
  assume colon: "CHR '':'' \<in> set (asset p)"
  from request_sent [of h _ st] answer
  have st': "sent st' = sent st @ [\<lparr>http_method = ''POST'', url = baseUrl (network c) @ ''/info'',
                body = JObj [(''type'', JStr ''allMids'')]\<rparr>]"
    by (metis snd_conv)
  show "new_requests st (run_item h c addr ''placeOrder'' p st) =
              [\<lparr>http_method = ''POST'', url = baseUrl (network c) @ ''/info'',
                body = JObj [(''type'', JStr ''allMids'')]\<rparr>,
               \<lparr>http_method = ''POST'', url = baseUrl (network c) @ ''/exchange'',
                body = exchange_body c (order_action p px) (fst (Date_now h (world st')))
                         (sign h c (order_action p px) (fst (Date_now h (world st'))))\<rparr>]"
    using colon
    by (intro new_requests_append)
       (simp add: run_item_def placeOrder_def price now_world sign_and_send_sent st')
qed

text \<open>With the mid price \<open>100\<close>, a market buy has the limit price \<open>105\<close> and a market
  sell \<open>95\<close>.\<close>

theorem market_order_limit_price_witness:
  "orderType (demo_parameters\<lparr>orderType := ''market''\<rparr>) \<noteq> ''limit''
   \<and> parseFloat (JStr ''100'') = Inr (Num 100)
   \<and> fst (limitPx mids_host demo_credentials (demo_parameters\<lparr>orderType := ''market''\<rparr>) start) = Inr ''105''
   \<and> fst (limitPx mids_host demo_credentials (demo_parameters\<lparr>orderType := ''market'', side := ''A''\<rparr>) start)
       = Inr ''95''"
proof -
  let ?req = "\<lparr>http_method = ''POST'', url = baseUrl (network demo_credentials) @ ''/info'',
                body = JObj [(''type'', JStr ''allMids'')]\<rparr>"
  let ?st' = "\<lparr>world = Suc 0, sent = [?req]\<rparr>"
  have answer: "request mids_host ?req start = (Inr (JObj [(''xyz:XYZ100'', JStr ''100'')]), ?st')"
    by (simp add: request_def mids_host_def demo_host_def start_def)
  have mid: "get_property (JObj [(''xyz:XYZ100'', JStr ''100'')]) (asset (demo_parameters\<lparr>orderType := ''market''\<rparr>))
      = Inr (JStr ''100'')"
    "get_property (JObj [(''xyz:XYZ100'', JStr ''100'')])
       (asset (demo_parameters\<lparr>orderType := ''market'', side := ''A''\<rparr>)) = Inr (JStr ''100'')"
    by (simp_all add: get_property_def demo_parameters_def)
  have truthy: "truthy (JStr ''100'')" by simp
  have market: "orderType (demo_parameters\<lparr>orderType := ''market''\<rparr>) \<noteq> ''limit''"
    "orderType (demo_parameters\<lparr>orderType := ''market'', side := ''A''\<rparr>) \<noteq> ''limit''"
    by simp_all
  have buy: "''105'' = number_to_string (multiply (Num 100)
      (if side (demo_parameters\<lparr>orderType := ''market''\<rparr>) = ''B'' then literal_1_05 else literal_0_95))"
    by (simp add: demo_parameters_def buy_105)
  have sell: "''95'' = number_to_string (multiply (Num 100)
      (if side (demo_parameters\<lparr>orderType := ''market'', side := ''A''\<rparr>) = ''B'' then literal_1_05 else literal_0_95))"
    by (simp add: sell_95)
  from market_order_limit_price [OF market(1) answer mid(1) truthy parseFloat_100 buy]
  have b: "fst (limitPx mids_host demo_credentials (demo_parameters\<lparr>orderType := ''market''\<rparr>) start) = Inr ''105''"
    by simp
  from market_order_limit_price [OF market(2) answer mid(2) truthy parseFloat_100 sell]
  have s: "fst (limitPx mids_host demo_credentials (demo_parameters\<lparr>orderType := ''market'', side := ''A''\<rparr>) start)
       = Inr ''95''"
    by simp
  from market(1) parseFloat_100 b s show ?thesis by blast
qed

subsection \<open>Signing\<close>

lemma covers_own_envelope:
  "signature_covers_envelope h c
     \<lparr>http_method = m, url = u, body = exchange_body c action t (sign h c action t)\<rparr>"
  by (simp add: signature_covers_envelope_def exchange_body_def sign_def message_hash_def
        signed_message_def Let_def)

lemma sign_and_send_covers:
  "\<exists>new. sent (snd (sign_and_send h c action t st)) = sent st @ new
     \<and> list_all (\<lambda>req. is_exchange c req \<longrightarrow> signature_covers_envelope h c req) new"
  by (intro exI [of _ "[\<lparr>http_method = ''POST'', url = baseUrl (network c) @ ''/exchange'',
                 body = exchange_body c action t (sign h c action t)\<rparr>]"])
     (simp add: sign_and_send_sent covers_own_envelope)

lemma info_not_exchange:
  "\<not> is_exchange c \<lparr>http_method = m, url = baseUrl (network c) @ ''/info'', body = b\<rparr>"
  by (simp add: is_exchange_def)

lemma limitPx_sent:
  "\<exists>new. sent (snd (limitPx h c p st)) = sent st @ new \<and> list_all (\<lambda>req. \<not> is_exchange c req) new"
proof (cases "orderType p = ''limit''")
  case True
  then show ?thesis by (simp add: limitPx_def)
next
  case False
  let ?req = "\<lparr>http_method = ''POST'', url = baseUrl (network c) @ ''/info'',
                body = JObj [(''type'', JStr ''allMids'')]\<rparr>"
  have "sent (snd (limitPx h c p st)) = sent (snd (request h ?req st))"
    using False by (simp add: limitPx_def split: prod.splits sum.splits)
  then have "sent (snd (limitPx h c p st)) = sent st @ [?req]"
    by (simp add: request_sent)
  then show ?thesis
    by (intro exI [of _ "[?req]"]) (simp add: info_not_exchange)
qed

lemma placeOrder_covers:
  "\<exists>new. sent (snd (placeOrder h c p st)) = sent st @ new
     \<and> list_all (\<lambda>req. is_exchange c req \<longrightarrow> signature_covers_envelope h c req) new"
proof (cases "CHR '':'' \<in> set (asset p)")
  case False
  then show ?thesis by (simp add: placeOrder_def)
next
  case True
  obtain r st1 where px: "limitPx h c p st = (r, st1)" by (cases "limitPx h c p st")
  from limitPx_sent [of h c p st] px obtain new1 where
    new1: "sent st1 = sent st @ new1" "list_all (\<lambda>req. \<not> is_exchange c req) new1" by auto
  show ?thesis
  proof (cases r)
    case (Inl e)
    with True px new1 show ?thesis
      by (intro exI [of _ new1]) (simp add: placeOrder_def list_all_iff)
  next
    case (Inr v)
    obtain t st2 where n: "now h st1 = (t, st2)" by (cases "now h st1")
    then have st2: "sent st2 = sent st1" by (rule now_sent')
    from sign_and_send_covers [of h c "order_action p v" t st2] obtain new2 where
      new2: "sent (snd (sign_and_send h c (order_action p v) t st2)) = sent st2 @ new2"
        "list_all (\<lambda>req. is_exchange c req \<longrightarrow> signature_covers_envelope h c req) new2" by blast
    with True px Inr n st2 new1 show ?thesis
      by (intro exI [of _ "new1 @ new2"]) (auto simp: placeOrder_def list_all_iff)
  qed
qed

lemma cancelOrder_covers:
  "\<exists>new. sent (snd (cancelOrder h c p st)) = sent st @ new
     \<and> list_all (\<lambda>req. is_exchange c req \<longrightarrow> signature_covers_envelope h c req) new"
  using sign_and_send_covers [of h c "cancel_action p" "fst (Date_now h (world st))"
          "st\<lparr>world := snd (Date_now h (world st))\<rparr>"]
  by (simp add: cancelOrder_def now_world)

lemma cancelAllOrders_covers:
  "\<exists>new. sent (snd (cancelAllOrders h c p st)) = sent st @ new
     \<and> list_all (\<lambda>req. is_exchange c req \<longrightarrow> signature_covers_envelope h c req) new"
  using sign_and_send_covers [of h c "cancelByCloid_action p" "fst (Date_now h (world st))"
          "st\<lparr>world := snd (Date_now h (world st))\<rparr>"]
  by (simp add: cancelAllOrders_def now_world)

text \<open>
  C1. For \<open>placeOrder\<close>, \<open>cancelOrder\<close> and \<open>cancelAllOrders\<close>, every request a batch
  sends to \<open>/exchange\<close> carries the signature of the serialization of its own
  \<open>action\<close>, \<open>nonce\<close> and \<open>vaultAddress\<close>: what is sent is what was hashed and signed,
  value for value and so byte for byte under \<open>JSON.stringify\<close>.
\<close>

theorem signed_envelope_is_sent_envelope:
  assumes "operation = ''placeOrder'' \<or> operation = ''cancelOrder'' \<or> operation = ''cancelAllOrders''"
  shows "list_all (\<lambda>req. is_exchange c req \<longrightarrow> signature_covers_envelope h c req)
           (new_requests st (execute h c operation items st))"
proof (rule execute_sent)
  fix p st wa
  from assms show "\<exists>new. sent (snd (run_item h c (address c wa) operation p st)) = sent st @ new \<and>
       list_all (\<lambda>req. is_exchange c req \<longrightarrow> signature_covers_envelope h c req) new"
    by (auto simp: run_item_def placeOrder_covers cancelOrder_covers cancelAllOrders_covers)
qed

text \<open>A \<open>cancelOrder\<close> sends one request, to \<open>/exchange\<close>, and it is consistent.\<close>

theorem signed_envelope_is_sent_envelope_witness:
  "map url (new_requests start (execute (demo_host False) demo_credentials ''cancelOrder'' [demo_parameters] start))
     = [''https://api.hyperliquid.xyz/exchange'']
   \<and> list_all (\<lambda>req. is_exchange demo_credentials req \<and> signature_covers_envelope (demo_host False) demo_credentials req)
        (new_requests start (execute (demo_host False) demo_credentials ''cancelOrder'' [demo_parameters] start))"
proof -
  have urls: "map url (new_requests start (execute (demo_host False) demo_credentials ''cancelOrder'' [demo_parameters] start))
     = [''https://api.hyperliquid.xyz/exchange'']"
    by (simp add: new_requests_def execute_def run_item_def cancelOrder_def now_def sign_and_send_def
          request_def Let_def baseUrl_def demo_host_def demo_credentials_def start_def)
  have "list_all (\<lambda>x. f x = u) xs" if "map f xs = [u]" for f :: "http_request \<Rightarrow> string" and u xs
    using that by (cases xs) auto
  from this [OF urls] have "list_all (\<lambda>req. is_exchange demo_credentials req)
      (new_requests start (execute (demo_host False) demo_credentials ''cancelOrder'' [demo_parameters] start))"
    by (simp add: is_exchange_def baseUrl_def demo_credentials_def)
  with signed_envelope_is_sent_envelope [where operation = "''cancelOrder''" and c = demo_credentials
         and h = "demo_host False" and st = start and items = "[demo_parameters]"]
  have "list_all (\<lambda>req. is_exchange demo_credentials req \<and> signature_covers_envelope (demo_host False) demo_credentials req)
        (new_requests start (execute (demo_host False) demo_credentials ''cancelOrder'' [demo_parameters] start))"
    by (simp add: list_all_iff)
  with urls show ?thesis by blast
qed

subsection \<open>The order id of a cancellation\<close>

text \<open>\<open>parseInt\<close> reads the decimal digits of a natural number below \<open>2 ^ 53\<close> back as
  that number.\<close>

lemma radix_value_snoc:
  "radix_value R (z @ [c]) = radix_value R z * int R + (case digit_value c of Some d \<Rightarrow> int d | None \<Rightarrow> 0)"
  by (simp add: radix_value_def)

lemma digit_char:
  assumes "0 \<le> k" "k < 10"
  shows "digit_value (char_of (48 + k :: int)) = Some (nat k)"
proof -
  have "char_of (48 + k) = char_of (nat (48 + k))"
    using assms by (metis char_of_nat int_nat_eq add_nonneg_nonneg zero_le_numeral)
  moreover have "(of_char (char_of (nat (48 + k))) :: nat) = nat (48 + k)"
    using assms by simp
  ultimately have "(of_char (char_of (48 + k)) :: nat) = nat (48 + k)" by simp
  with assms show ?thesis by (auto simp: digit_value_def Let_def)
qed

lemma digit_char_radix: "0 \<le> k \<Longrightarrow> k < 10 \<Longrightarrow> is_radix_digit 10 (char_of (48 + k :: int))"
  by (simp add: is_radix_digit_def digit_char)

lemma digits_of_all_digits: "0 \<le> n \<Longrightarrow> list_all (is_radix_digit 10) (digits_of n)"
proof (induction n rule: digits_of.induct)
  case (1 n)
  show ?case
  proof (cases "n < 10")
    case True
    with 1 show ?thesis by (subst digits_of.simps) (simp add: digit_char_radix)
  next
    case False
    with 1 have "list_all (is_radix_digit 10) (digits_of (n div 10))" by simp
    moreover have "is_radix_digit 10 (char_of (48 + n mod 10))"
      by (rule digit_char_radix) simp_all
    ultimately show ?thesis using False by (subst digits_of.simps) simp
  qed
qed

lemma digits_of_not_empty: "digits_of n \<noteq> []"
  by (subst digits_of.simps) simp

lemma radix_value_digits_of: "0 \<le> n \<Longrightarrow> radix_value 10 (digits_of n) = n"
proof (induction n rule: digits_of.induct)
  case (1 n)
  show ?case
  proof (cases "n < 10")
    case True
    with 1 show ?thesis by (subst digits_of.simps) (simp add: radix_value_def digit_char)
  next
    case False
    with 1 have "radix_value 10 (digits_of (n div 10)) = n div 10" by simp
    moreover have "digit_value (char_of (48 + n mod 10)) = Some (nat (n mod 10))"
      by (rule digit_char) simp_all
    ultimately show ?thesis using False
      by (subst digits_of.simps) (simp add: radix_value_snoc)
  qed
qed

lemma first_stripped_None:
  "list_all (\<lambda>p. p \<noteq> [] \<and> hd p \<noteq> c) ps \<Longrightarrow> first_stripped ps (c # cs) = None"
proof (induction ps)
  case Nil
  then show ?case by simp
next
  case (Cons p ps)
  then obtain a as where "p = a # as" "a \<noteq> c" by (cases p) auto
  with Cons show ?case by simp
qed

lemma digit_not_white:
  assumes "is_radix_digit 10 c"
  shows "first_stripped white_space (c # cs) = None"
proof -
  from assms have "48 \<le> (of_char c :: nat)" "(of_char c :: nat) \<le> 57"
    by (auto simp: is_radix_digit_def digit_value_def Let_def split: if_splits)
  then have "list_all (\<lambda>a. a \<noteq> c)
      [CHR 0x09, CHR 0x0A, CHR 0x0B, CHR 0x0C, CHR 0x0D, CHR 0x20, CHR 0xC2, CHR 0xE1, CHR 0xE2, CHR 0xE3, CHR 0xEF]"
    by auto
  then have "list_all (\<lambda>p. p \<noteq> [] \<and> hd p \<noteq> c) white_space"
    by (simp add: white_space_def)
  then show ?thesis by (rule first_stripped_None)
qed

lemma trim_start_digit:
  assumes "s \<noteq> []" "is_radix_digit 10 (hd s)"
  shows "trim_start s = s"
proof -
  from assms obtain c cs where s: "s = c # cs" and c: "is_radix_digit 10 c"
    by (cases s) auto
  then show ?thesis by (simp add: trim_start_def digit_not_white)
qed

lemma digit_not_sign: "is_radix_digit 10 c \<Longrightarrow> c \<noteq> CHR ''+'' \<and> c \<noteq> CHR ''-'' \<and> c \<noteq> CHR ''x'' \<and> c \<noteq> CHR ''X''"
  by (auto simp: is_radix_digit_def digit_value_def Let_def split: if_splits)

lemma no_hex_prefix:
  assumes "list_all (is_radix_digit 10) s"
  shows "take 2 s \<noteq> ''0x'' \<and> take 2 s \<noteq> ''0X''"
proof (cases s)
  case Nil
  then show ?thesis by simp
next
  case (Cons a t)
  show ?thesis
  proof (cases t)
    case Nil
    with Cons show ?thesis by simp
  next
    case (Cons b u)
    with assms \<open>s = a # t\<close> have "is_radix_digit 10 b" by simp
    then have "b \<noteq> CHR ''x''" "b \<noteq> CHR ''X''" using digit_not_sign by blast+
    with Cons \<open>s = a # t\<close> show ?thesis by simp
  qed
qed

lemma round_half_even_of_int: "round_half_even (of_int m) = m"
  by (simp add: round_half_even_def)

lemma binary_exponent_of_int_le:
  assumes "0 < m" "m < 2 ^ 53"
  shows "binary_exponent (of_int m) \<le> 52"
proof -
  from assms(2) have "bitlen m \<le> 53" by (simp add: bitlen_le_iff_power)
  moreover have "bitlen 1 = 1" by (simp add: bitlen_alt_def)
  ultimately show ?thesis
    by (simp add: binary_exponent_def Let_def)
qed

lemma pow2_nonpos: "u \<le> 0 \<Longrightarrow> pow2 u = 1 / of_int (2 ^ nat (- u))"
  by (cases "u = 0") (simp_all add: pow2_def)

lemma round_double_of_nat_small:
  assumes "0 < m" "m < 2 ^ 53"
  shows "(of_int (round_half_even (of_int m / pow2 (max (binary_exponent (of_int m) - 52) (- 1074)))) :: rat)
           * pow2 (max (binary_exponent (of_int m) - 52) (- 1074)) = of_int m"
proof -
  let ?u = "max (binary_exponent (of_int m) - 52) (- 1074)"
  from binary_exponent_of_int_le [OF assms] have u: "?u \<le> 0" by simp
  let ?k = "nat (- ?u)"
  have p: "pow2 ?u = 1 / of_int (2 ^ ?k)" using u by (rule pow2_nonpos)
  have "of_int m / pow2 ?u = (of_int (m * 2 ^ ?k) :: rat)" by (simp add: p)
  then have "round_half_even (of_int m / pow2 ?u) = m * 2 ^ ?k"
    by (simp only: round_half_even_of_int)
  then show ?thesis by (simp add: p)
qed

lemma round_double_of_int:
  assumes "\<bar>n\<bar> < 2 ^ 53"
  shows "round_double (of_int n) = Num (of_int n)"
proof (cases "n = 0")
  case True
  then show ?thesis by (simp add: round_double_def)
next
  case False
  let ?m = "\<bar>n\<bar>"
  from False assms have m: "0 < ?m" "?m < 2 ^ 53" by simp_all
  have abs: "\<bar>of_int n :: rat\<bar> = of_int ?m" by simp
  have big: "\<not> pow2 1024 \<le> (of_int ?m :: rat)"
  proof -
    from m(2) have "?m < 2 ^ 1024" by (rule less_trans) simp
    then have "(of_int ?m :: rat) < of_int (2 ^ 1024)" by (simp only: of_int_less_iff)
    then show ?thesis by (simp add: pow2_def)
  qed
  have nz: "(of_int n :: rat) \<noteq> 0" using False by simp
  have "round_double (of_int n) =
          (if pow2 1024 \<le> (of_int ?m :: rat) then (if (of_int n :: rat) < 0 then NegInfinity else PosInfinity)
           else Num (if (of_int n :: rat) < 0 then - of_int ?m else of_int ?m))"
    unfolding round_double_def Let_def abs round_double_of_nat_small [OF m] if_not_P [OF nz] ..
  also have "\<dots> = Num (of_int n)" using big by (simp add: abs_if)
  finally show ?thesis .
qed

lemma parseInt_digits:
  assumes digits: "s \<noteq> []" "list_all (is_radix_digit 10) s"
  shows "parseInt s 0 = round_double (of_int (radix_value 10 s))"
proof -
  from digits have hd: "is_radix_digit 10 (hd s)" by (cases s) auto
  with digits have trim: "trim_start s = s" by (simp add: trim_start_digit)
  from hd have sign: "hd s \<noteq> CHR ''+''" "hd s \<noteq> CHR ''-''" using digit_not_sign by blast+
  from digits have all: "takeWhile (is_radix_digit 10) s = s"
    by (simp add: list_all_iff)
  from digits(2) have hex: "take 2 s \<noteq> ''0x''" "take 2 s \<noteq> ''0X''" using no_hex_prefix by blast+
  show ?thesis
    unfolding parseInt_def Let_def trim using sign hex digits(1) by (simp add: all)
qed

lemma parseInt_digits_of:
  assumes "0 \<le> n" "n < 2 ^ 53"
  shows "parseInt (digits_of n) 0 = Num (of_int n)"
proof -
  have "parseInt (digits_of n) 0 = round_double (of_int (radix_value 10 (digits_of n)))"
    using assms(1) by (intro parseInt_digits digits_of_not_empty digits_of_all_digits)
  also have "\<dots> = round_double (of_int n)" using assms(1) by (simp add: radix_value_digits_of)
  also have "\<dots> = Num (of_int n)" using assms by (intro round_double_of_int) simp
  finally show ?thesis .
qed

lemma digits_of_42: "digits_of 42 = ''42''"
  by code_simp

lemma parseInt_abc: "parseInt ''abc'' 0 = NaN"
  by code_simp

text \<open>
  C3, as the code has it. For every \<open>cancelOrder\<close> the action
  \<open>{type: 'cancel', cancels: [{a: 0, o: parseInt(orderId), c: coin}]}\<close> is built, signed
  and sent to \<open>/exchange\<close>, and the operation never fails with a \<open>NodeOperationError\<close>,
  whatever \<open>orderId\<close> is. When \<open>orderId\<close> is the decimal representation of an integer
  \<open>n\<close> with \<open>0 \<le> n < 2 ^ 53\<close>, the field \<open>o\<close> is \<open>n\<close>; when \<open>parseInt\<close> finds no integer
  in \<open>orderId\<close>, the field \<open>o\<close> is \<open>NaN\<close>, which \<open>JSON.stringify\<close> prints as \<open>null\<close>.
\<close>

theorem cancelOrder_action_for_every_orderId:
  "new_requests st (run_item h c addr ''cancelOrder'' p st) =
     [\<lparr>http_method = ''POST'', url = baseUrl (network c) @ ''/exchange'',
       body = exchange_body c
                (JObj [(''type'', JStr ''cancel''),
                       (''cancels'', JArr [JObj [(''a'', JNum (Num 0)),
                                                 (''o'', JNum (parseInt (orderId p) 0)),
                                                 (''c'', JStr (coin p))]])])
                (fst (Date_now h (world st)))
                (sign h c
                   (JObj [(''type'', JStr ''cancel''),
                          (''cancels'', JArr [JObj [(''a'', JNum (Num 0)),
                                                    (''o'', JNum (parseInt (orderId p) 0)),
                                                    (''c'', JStr (coin p))]])])
                   (fst (Date_now h (world st))))\<rparr>]
   \<and> (\<forall>m. fst (run_item h c addr ''cancelOrder'' p st) \<noteq> Inl (NodeOperationError m))
   \<and> (\<forall>n. 0 \<le> n \<and> n < 2 ^ 53 \<and> orderId p = digits_of n \<longrightarrow> parseInt (orderId p) 0 = Num (of_int n))
   \<and> (parseInt (orderId p) 0 = NaN \<longrightarrow>
        cancel_action p =
          JObj [(''type'', JStr ''cancel''),
                (''cancels'', JArr [JObj [(''a'', JNum (Num 0)), (''o'', JNum NaN), (''c'', JStr (coin p))]])]
        \<and> serialize (JNum (parseInt (orderId p) 0)) = Some ''null'')"
proof (intro conjI allI impI)
  show "new_requests st (run_item h c addr ''cancelOrder'' p st) =
     [\<lparr>http_method = ''POST'', url = baseUrl (network c) @ ''/exchange'',
       body = exchange_body c
                (JObj [(''type'', JStr ''cancel''),
                       (''cancels'', JArr [JObj [(''a'', JNum (Num 0)),
                                                 (''o'', JNum (parseInt (orderId p) 0)),
                                                 (''c'', JStr (coin p))]])])
                (fst (Date_now h (world st)))
                (sign h c
                   (JObj [(''type'', JStr ''cancel''),
                          (''cancels'', JArr [JObj [(''a'', JNum (Num 0)),
                                                    (''o'', JNum (parseInt (orderId p) 0)),
                                                    (''c'', JStr (coin p))]])])
                   (fst (Date_now h (world st))))\<rparr>]"
    by (rule new_requests_append)
       (simp add: run_item_def cancelOrder_def cancel_action_def now_world sign_and_send_sent)
next
  fix m
  show "fst (run_item h c addr ''cancelOrder'' p st) \<noteq> Inl (NodeOperationError m)"
    by (simp add: run_item_def cancelOrder_def now_world sign_and_send_no_validation_error)
next
  fix n :: int
  assume "0 \<le> n \<and> n < 2 ^ 53 \<and> orderId p = digits_of n"
  then show "parseInt (orderId p) 0 = Num (of_int n)"
    by (simp add: parseInt_digits_of)
next
  assume nan: "parseInt (orderId p) 0 = NaN"
  then show "cancel_action p =
          JObj [(''type'', JStr ''cancel''),
                (''cancels'', JArr [JObj [(''a'', JNum (Num 0)), (''o'', JNum NaN), (''c'', JStr (coin p))]])]"
    by (simp add: cancel_action_def)
  from nan show "serialize (JNum (parseInt (orderId p) 0)) = Some ''null''"
    by simp
qed

text \<open>The order id \<open>42\<close> is sent as the number 42.\<close>

theorem cancelOrder_action_for_every_orderId_witness:
  "(0::int) \<le> 42 \<and> (42::int) < 2 ^ 53 \<and> orderId demo_parameters = digits_of 42
   \<and> parseInt (orderId demo_parameters) 0 = Num 42
   \<and> cancel_action demo_parameters =
        JObj [(''type'', JStr ''cancel''),
              (''cancels'', JArr [JObj [(''a'', JNum (Num 0)), (''o'', JNum (Num 42)), (''c'', JStr ''xyz:XYZ100'')]])]"
proof -
  have id: "orderId demo_parameters = digits_of 42"
    by (simp add: demo_parameters_def digits_of_42)
  from cancelOrder_action_for_every_orderId [where p = demo_parameters and h = "demo_host False"
         and c = demo_credentials and addr = "''0xVVV''" and st = start]
  have "\<forall>n. 0 \<le> n \<and> n < 2 ^ 53 \<and> orderId demo_parameters = digits_of n
          \<longrightarrow> parseInt (orderId demo_parameters) 0 = Num (of_int n)"
    by blast
  from this [rule_format, of 42] id have "parseInt (orderId demo_parameters) 0 = Num (of_int 42)"
    by simp
  then have parsed: "parseInt (orderId demo_parameters) 0 = Num 42" by simp
  then have "cancel_action demo_parameters =
        JObj [(''type'', JStr ''cancel''),
              (''cancels'', JArr [JObj [(''a'', JNum (Num 0)), (''o'', JNum (Num 42)), (''c'', JStr ''xyz:XYZ100'')]])]"
    by (simp add: cancel_action_def) (simp add: demo_parameters_def)
  with id parsed show ?thesis by simp
qed

text \<open>The order id \<open>abc\<close> is no integer: \<open>parseInt\<close> gives \<open>NaN\<close>, which is sent as
  \<open>null\<close>, and the operation returns the answer of the exchange instead of failing.\<close>

theorem cancelOrder_abc_counterexample:
  "parseInt (orderId (demo_parameters\<lparr>orderId := ''abc''\<rparr>)) 0 = NaN
   \<and> cancel_action (demo_parameters\<lparr>orderId := ''abc''\<rparr>) =
        JObj [(''type'', JStr ''cancel''),
              (''cancels'', JArr [JObj [(''a'', JNum (Num 0)), (''o'', JNum NaN), (''c'', JStr ''xyz:XYZ100'')]])]
   \<and> fst (run_item (demo_host False) demo_credentials ''0xVVV'' ''cancelOrder''
            (demo_parameters\<lparr>orderId := ''abc''\<rparr>) start)
       = Inr (JObj [(''status'', JStr ''ok'')])
   \<and> map url (new_requests start (run_item (demo_host False) demo_credentials ''0xVVV'' ''cancelOrder''
            (demo_parameters\<lparr>orderId := ''abc''\<rparr>) start))
       = [''https://api.hyperliquid.xyz/exchange'']
   \<and> serialize (JNum NaN) = Some ''null''"
proof (intro conjI)
  show nan: "parseInt (orderId (demo_parameters\<lparr>orderId := ''abc''\<rparr>)) 0 = NaN"
    by (simp add: parseInt_abc)
  then show "cancel_action (demo_parameters\<lparr>orderId := ''abc''\<rparr>) =
        JObj [(''type'', JStr ''cancel''),
              (''cancels'', JArr [JObj [(''a'', JNum (Num 0)), (''o'', JNum NaN), (''c'', JStr ''xyz:XYZ100'')]])]"
    by (simp add: cancel_action_def) (simp add: demo_parameters_def)
  show "fst (run_item (demo_host False) demo_credentials ''0xVVV'' ''cancelOrder''
            (demo_parameters\<lparr>orderId := ''abc''\<rparr>) start)
       = Inr (JObj [(''status'', JStr ''ok'')])"
    by (simp add: run_item_def cancelOrder_def now_def sign_and_send_def request_def Let_def
          demo_host_def start_def)
  show "map url (new_requests start (run_item (demo_host False) demo_credentials ''0xVVV'' ''cancelOrder''
            (demo_parameters\<lparr>orderId := ''abc''\<rparr>) start))
       = [''https://api.hyperliquid.xyz/exchange'']"
    by (simp add: new_requests_def run_item_def cancelOrder_def now_def sign_and_send_def request_def Let_def
          baseUrl_def demo_host_def demo_credentials_def start_def)
  show "serialize (JNum NaN) = Some ''null''"
    by simp
qed

subsection \<open>Errors in a batch\<close>

lemma items_loop_append:
  "items_loop h c a op i (xs @ ys) rd st =
     (case items_loop h c a op i xs rd st of
        (Inl e, st') \<Rightarrow> (Inl e, st')
      | (Inr rd', st') \<Rightarrow> items_loop h c a op (i + length xs) ys rd' st')"
proof (induction xs arbitrary: i rd st)
  case Nil
  then show ?case by simp
next
  case (Cons x xs)
  show ?case
  proof (cases "run_item h c a op x st")
    case (Pair r st1)
    then show ?thesis
      by (cases r) (simp_all add: Cons.IH split: prod.splits sum.splits)
  qed
qed

lemma loop_isolated:
  assumes iso: "continueOnFail h"
  shows "\<exists>out. fst (items_loop h c a op 0 xs [] st) = Inr out \<and> length out = length xs
           \<and> (\<forall>k<length xs. out ! k =
                 result_entry k (fst (run_item h c a op (xs ! k)
                                   (snd (items_loop h c a op 0 (take k xs) [] st)))))"
proof (induction xs rule: rev_induct)
  case Nil
  then show ?case by simp
next
  case (snoc x xs)
  then obtain out where out: "fst (items_loop h c a op 0 xs [] st) = Inr out" "length out = length xs"
    and nth: "\<And>k. k < length xs \<Longrightarrow> out ! k =
                 result_entry k (fst (run_item h c a op (xs ! k)
                                   (snd (items_loop h c a op 0 (take k xs) [] st))))"
    by blast
  obtain st' where loop: "items_loop h c a op 0 xs [] st = (Inr out, st')"
    using out(1) by (cases "items_loop h c a op 0 xs [] st") simp
  obtain r st'' where run: "run_item h c a op x st' = (r, st'')"
    by (cases "run_item h c a op x st'")
  let ?out = "out @ [result_entry (length xs) r]"
  have "fst (items_loop h c a op 0 (xs @ [x]) [] st) = Inr ?out"
    using iso by (simp add: items_loop_append loop run result_entry_def split: sum.splits)
  moreover have "length ?out = length (xs @ [x])" using out(2) by simp
  moreover have "?out ! k = result_entry k (fst (run_item h c a op ((xs @ [x]) ! k)
                                   (snd (items_loop h c a op 0 (take k (xs @ [x])) [] st))))"
    if "k < length (xs @ [x])" for k
  proof (cases "k < length xs")
    case True
    with nth [OF True] out(2) show ?thesis by (simp add: nth_append)
  next
    case False
    with that have "k = length xs" by simp
    with out(2) loop run show ?thesis by (simp add: nth_append)
  qed
  ultimately show ?case by blast
qed

lemma loop_aborts:
  assumes stop: "\<not> continueOnFail h"
    and i: "i < length xs"
    and prefix: "fst (items_loop h c a op 0 (take i xs) [] st) = Inr out"
    and fails: "fst (run_item h c a op (xs ! i) (snd (items_loop h c a op 0 (take i xs) [] st))) = Inl e"
  shows "items_loop h c a op 0 xs [] st =
           (Inl e, snd (run_item h c a op (xs ! i) (snd (items_loop h c a op 0 (take i xs) [] st))))"
proof -
  obtain st' where loop: "items_loop h c a op 0 (take i xs) [] st = (Inr out, st')"
    using prefix by (cases "items_loop h c a op 0 (take i xs) [] st") simp
  obtain st'' where run: "run_item h c a op (xs ! i) st' = (Inl e, st'')"
    using fails loop by (cases "run_item h c a op (xs ! i) st'") simp
  from i have "xs = take i xs @ (xs ! i # drop (Suc i) xs)" by (simp add: id_take_nth_drop)
  then have "items_loop h c a op 0 xs [] st = items_loop h c a op 0 (take i xs @ (xs ! i # drop (Suc i) xs)) [] st"
    by simp
  also have "\<dots> = items_loop h c a op (0 + length (take i xs)) (xs ! i # drop (Suc i) xs) out st'"
    by (simp only: items_loop_append loop) simp
  also have "\<dots> = (Inl e, st'')"
    using stop run by simp
  finally show ?thesis using loop run by simp
qed

text \<open>
  C7. With \<open>continueOnFail()\<close> true, a batch returns one entry per input item, in
  order: entry \<open>i\<close> is paired with item \<open>i\<close> and is \<open>{error: message}\<close> when item \<open>i\<close>
  failed and its response otherwise, each item being run in the state its predecessors
  left. With \<open>continueOnFail()\<close> false, the first failure is the result of the whole
  call and the run ends in the state in which that item failed: no later item is
  started and no entry is returned.
\<close>

theorem batch_error_isolation:
  assumes wallet: "Wallet_address h (privateKey c) = Inr wa"
  shows "(continueOnFail h \<longrightarrow>
            (\<exists>out. fst (execute h c operation items st) = Inr out \<and> length out = length items
               \<and> (\<forall>i<length items.
                     out ! i = result_entry i (fst (item_outcome h c wa operation items i st)))))
       \<and> (\<not> continueOnFail h \<longrightarrow>
            (\<forall>i e. i < length items
                    \<and> (\<exists>out. fst (execute h c operation (take i items) st) = Inr out)
                    \<and> fst (item_outcome h c wa operation items i st) = Inl e
               \<longrightarrow> execute h c operation items st = (Inl e, snd (item_outcome h c wa operation items i st))))"
proof (intro conjI impI allI)
  assume "continueOnFail h"
  from loop_isolated [OF this, of c "address c wa" operation items st] wallet
  show "\<exists>out. fst (execute h c operation items st) = Inr out \<and> length out = length items
               \<and> (\<forall>i<length items.
                     out ! i = result_entry i (fst (item_outcome h c wa operation items i st)))"
    by (simp add: execute_def item_outcome_def state_before_def)
next
  fix i e
  assume stop: "\<not> continueOnFail h"
    and "i < length items
                    \<and> (\<exists>out. fst (execute h c operation (take i items) st) = Inr out)
                    \<and> fst (item_outcome h c wa operation items i st) = Inl e"
  with wallet obtain out where "i < length items"
    "fst (items_loop h c (address c wa) operation 0 (take i items) [] st) = Inr out"
    "fst (run_item h c (address c wa) operation (items ! i)
       (snd (items_loop h c (address c wa) operation 0 (take i items) [] st))) = Inl e"
    by (auto simp: execute_def item_outcome_def state_before_def)
  from loop_aborts [OF stop this] wallet
  show "execute h c operation items st = (Inl e, snd (item_outcome h c wa operation items i st))"
    by (simp add: execute_def item_outcome_def state_before_def)
qed

text \<open>Three items, the request of the second one rejected: with isolation the
  second entry is the error and the others are answers; without it the call fails
  after two requests.\<close>

theorem batch_error_isolation_witness:
  "Wallet_address (demo_host True) (privateKey demo_credentials) = Inr ''0xKKK''
   \<and> continueOnFail (demo_host True)
   \<and> fst (execute (demo_host True) demo_credentials ''getPositions''
            [demo_parameters, demo_parameters, demo_parameters] start)
       = Inr [\<lparr>json = JObj [(''status'', JStr ''ok'')], pairedItem = 0\<rparr>,
              \<lparr>json = JObj [(''error'', JStr ''socket hang up'')], pairedItem = 1\<rparr>,
              \<lparr>json = JObj [(''status'', JStr ''ok'')], pairedItem = 2\<rparr>]
   \<and> \<not> continueOnFail (demo_host False)
   \<and> fst (execute (demo_host False) demo_credentials ''getPositions''
            [demo_parameters, demo_parameters, demo_parameters] start)
       = Inl (RequestError ''socket hang up'')
   \<and> length (sent (snd (execute (demo_host False) demo_credentials ''getPositions''
            [demo_parameters, demo_parameters, demo_parameters] start))) = 2"
proof -
  let ?items = "[demo_parameters, demo_parameters, demo_parameters]"
  have wallet: "Wallet_address (demo_host b) (privateKey demo_credentials) = Inr ''0xKKK''" for b
    by (simp add: demo_defs)
  have on: "continueOnFail (demo_host True)" and off: "\<not> continueOnFail (demo_host False)"
    by (simp_all add: demo_host_def)
  have outcome: "item_outcome (demo_host b) demo_credentials ''0xKKK'' ''getPositions'' ?items k start
      = ((if k = 1 then Inl (RequestError ''socket hang up'') else Inr (JObj [(''status'', JStr ''ok'')])),
         \<lparr>world = Suc k,
          sent = replicate (Suc k)
            \<lparr>http_method = ''POST'', url = ''https://api.hyperliquid.xyz/info'',
              body = JObj [(''type'', JStr ''clearinghouseState''), (''user'', JStr ''0xVVV'')]\<rparr>\<rparr>)"
    if "k < 2" for k b
  proof -
    from that have "k = 0 \<or> k = 1" by auto
    then show ?thesis
      by (auto simp: item_outcome_def state_before_def execute_def run_item_def info_def request_def
            address_def baseUrl_def demo_defs)
  qed
  from batch_error_isolation [OF wallet [of True], where operation = "''getPositions''"
         and items = ?items and st = start] on
  obtain out where out: "fst (execute (demo_host True) demo_credentials ''getPositions'' ?items start) = Inr out"
    "length out = 3"
    "\<And>i. i < 3 \<Longrightarrow> out ! i = result_entry i (fst (item_outcome (demo_host True) demo_credentials ''0xKKK''
        ''getPositions'' ?items i start))"
    by auto
  have isolated: "fst (execute (demo_host True) demo_credentials ''getPositions'' ?items start)
       = Inr [\<lparr>json = JObj [(''status'', JStr ''ok'')], pairedItem = 0\<rparr>,
              \<lparr>json = JObj [(''error'', JStr ''socket hang up'')], pairedItem = 1\<rparr>,
              \<lparr>json = JObj [(''status'', JStr ''ok'')], pairedItem = 2\<rparr>]"
    by (simp add: execute_def run_item_def info_def request_def address_def demo_defs)
  with out(1) out(3) [of 1] outcome [of 1 True]
  have "out ! 1 = \<lparr>json = JObj [(''error'', JStr ''socket hang up'')], pairedItem = 1\<rparr>"
    by (simp add: result_entry_def)
  have prefix: "\<exists>out. fst (execute (demo_host False) demo_credentials ''getPositions'' (take 1 ?items) start) = Inr out"
    by (simp add: execute_def run_item_def info_def request_def address_def demo_defs)
  have fails: "fst (item_outcome (demo_host False) demo_credentials ''0xKKK'' ''getPositions'' ?items 1 start)
      = Inl (RequestError ''socket hang up'')"
    using outcome [of 1 False] by simp
  from batch_error_isolation [OF wallet [of False], where operation = "''getPositions''"
         and items = ?items and st = start] off prefix fails
  have aborted: "execute (demo_host False) demo_credentials ''getPositions'' ?items start
      = (Inl (RequestError ''socket hang up''),
         snd (item_outcome (demo_host False) demo_credentials ''0xKKK'' ''getPositions'' ?items 1 start))"
    by simp
  then have "fst (execute (demo_host False) demo_credentials ''getPositions'' ?items start)
       = Inl (RequestError ''socket hang up'')"
    and "length (sent (snd (execute (demo_host False) demo_credentials ''getPositions'' ?items start))) = 2"
    using outcome [of 1 False] by simp_all
  with wallet [of True] on off isolated show ?thesis by simp
qed

end
